theory Spec2Isabelle
  imports Complex_Main "HOL-Library.Monad_Syntax"
begin

section \<open>Fitting galaxy density profiles: the notebook's numeric core\<close>

text \<open>
  The notebook \<^verbatim>\<open>fitting_galaxy_profiles.ipynb\<close> defines a surface-brightness
  \<^verbatim>\<open>model\<close>, fakes data from it on a grid, and defines the fit statistic
  \<^verbatim>\<open>binned_nll\<close>. All its arithmetic is numpy arithmetic on float64 arrays.

  Numbers. A float64 is embedded as a value that is either a real number or one of the
  three special values of IEEE 754. Arithmetic on real operands is exact: rounding,
  overflow to infinity and the sign of zero are outside the model. What the model keeps
  is what numpy does when an operation has no real result: a division by zero, the
  logarithm or root of a non-positive number, and arithmetic on infinities and NaN give
  the special value IEEE 754 prescribes, and no exception is raised.
\<close>

subsection \<open>Scalars: float64 with exact finite arithmetic\<close>

datatype npfloat = Fin real | PInf | NInf | NaN

fun is_finite :: "npfloat \<Rightarrow> bool" where
  "is_finite (Fin _) = True"
| "is_finite _ = False"

text \<open>Unary minus (\<^verbatim>\<open>-x\<close>).\<close>

fun fneg :: "npfloat \<Rightarrow> npfloat" where
  "fneg (Fin a) = Fin (- a)"
| "fneg PInf = NInf"
| "fneg NInf = PInf"
| "fneg NaN = NaN"

text \<open>Addition (\<^verbatim>\<open>x + y\<close>): infinities of opposite sign give NaN.\<close>

fun fadd :: "npfloat \<Rightarrow> npfloat \<Rightarrow> npfloat" where
  "fadd (Fin a) (Fin b) = Fin (a + b)"
| "fadd NaN _ = NaN"
| "fadd _ NaN = NaN"
| "fadd PInf NInf = NaN"
| "fadd NInf PInf = NaN"
| "fadd PInf _ = PInf"
| "fadd _ PInf = PInf"
| "fadd NInf _ = NInf"
| "fadd _ NInf = NInf"

text \<open>Subtraction (\<^verbatim>\<open>x - y\<close>) is addition of the negated operand, as in IEEE 754.\<close>

definition fsub :: "npfloat \<Rightarrow> npfloat \<Rightarrow> npfloat" where
  "fsub a b = fadd a (fneg b)"

text \<open>An infinity multiplied or divided by a real number takes the sign of the product;
  the real number zero counts as positive zero.\<close>

definition signed_inf :: "bool \<Rightarrow> npfloat" where
  "signed_inf positive = (if positive then PInf else NInf)"

text \<open>Multiplication (\<^verbatim>\<open>x * y\<close>): zero times an infinity is NaN.\<close>

fun fmul :: "npfloat \<Rightarrow> npfloat \<Rightarrow> npfloat" where
  "fmul (Fin a) (Fin b) = Fin (a * b)"
| "fmul NaN _ = NaN"
| "fmul _ NaN = NaN"
| "fmul (Fin a) PInf = (if a = 0 then NaN else signed_inf (0 < a))"
| "fmul (Fin a) NInf = (if a = 0 then NaN else signed_inf (a < 0))"
| "fmul PInf (Fin b) = (if b = 0 then NaN else signed_inf (0 < b))"
| "fmul NInf (Fin b) = (if b = 0 then NaN else signed_inf (b < 0))"
| "fmul PInf PInf = PInf"
| "fmul NInf NInf = PInf"
| "fmul PInf NInf = NInf"
| "fmul NInf PInf = NInf"

text \<open>
  True division (\<^verbatim>\<open>x / y\<close>). numpy does not raise on a zero divisor: a non-zero
  real divided by zero is an infinity, zero divided by zero is NaN, a real divided by an
  infinity is zero, and an infinity divided by an infinity is NaN.
\<close>

fun fdiv :: "npfloat \<Rightarrow> npfloat \<Rightarrow> npfloat" where
  "fdiv (Fin a) (Fin b) =
     (if b \<noteq> 0 then Fin (a / b) else if a = 0 then NaN else signed_inf (0 < a))"
| "fdiv NaN _ = NaN"
| "fdiv _ NaN = NaN"
| "fdiv (Fin a) PInf = Fin 0"
| "fdiv (Fin a) NInf = Fin 0"
| "fdiv PInf (Fin b) = signed_inf (0 \<le> b)"
| "fdiv NInf (Fin b) = signed_inf (b < 0)"
| "fdiv PInf PInf = NaN"
| "fdiv PInf NInf = NaN"
| "fdiv NInf PInf = NaN"
| "fdiv NInf NInf = NaN"

text \<open>The power \<^verbatim>\<open>x ** 2\<close>, which numpy computes as the product of \<open>x\<close> with itself.\<close>

definition fpow2 :: "npfloat \<Rightarrow> npfloat" where
  "fpow2 a = fmul a a"

text \<open>\<^verbatim>\<open>np.sqrt\<close>: NaN on a negative operand.\<close>

fun fsqrt :: "npfloat \<Rightarrow> npfloat" where
  "fsqrt (Fin a) = (if 0 \<le> a then Fin (sqrt a) else NaN)"
| "fsqrt PInf = PInf"
| "fsqrt NInf = NaN"
| "fsqrt NaN = NaN"

text \<open>\<^verbatim>\<open>np.log\<close>: minus infinity at zero, NaN on a negative operand.\<close>

fun flog :: "npfloat \<Rightarrow> npfloat" where
  "flog (Fin a) = (if 0 < a then Fin (ln a) else if a = 0 then NInf else NaN)"
| "flog PInf = PInf"
| "flog NInf = NaN"
| "flog NaN = NaN"

text \<open>The comparison \<^verbatim>\<open>x > y\<close>: false whenever an operand is NaN.\<close>

fun fgt :: "npfloat \<Rightarrow> npfloat \<Rightarrow> bool" where
  "fgt (Fin a) (Fin b) = (b < a)"
| "fgt NaN _ = False"
| "fgt _ NaN = False"
| "fgt PInf PInf = False"
| "fgt PInf _ = True"
| "fgt _ PInf = False"
| "fgt NInf _ = False"
| "fgt _ NInf = True"

subsection \<open>Arrays and broadcasting\<close>

text \<open>
  An \<^verbatim>\<open>ndarray\<close> is its shape and its elements in row-major order. A scalar is the
  array of shape \<open>[]\<close> with one element, which is how numpy treats a Python number
  in an operation with an array.
\<close>

record 'a ndarray =
  shape :: "nat list"
  data :: "'a list"

definition scalar :: "'a \<Rightarrow> 'a ndarray" where
  "scalar v = \<lparr>shape = [], data = [v]\<rparr>"

definition wellformed :: "'a ndarray \<Rightarrow> bool" where
  "wellformed a = (length (data a) = prod_list (shape a))"

text \<open>
  Broadcasting of two shapes: the shorter shape is padded with leading ones; then in
  every dimension the sizes are equal or one of them is one, and otherwise numpy
  raises \<^verbatim>\<open>ValueError\<close>, which is \<open>None\<close> here.
\<close>

definition pad_shape :: "nat \<Rightarrow> nat list \<Rightarrow> nat list" where
  "pad_shape n s = replicate (n - length s) 1 @ s"

fun broadcast_shapes :: "nat list \<Rightarrow> nat list \<Rightarrow> nat list option" where
  "broadcast_shapes [] [] = Some []"
| "broadcast_shapes (a # s) (b # t) =
     (case broadcast_shapes s t of
        None \<Rightarrow> None
      | Some u \<Rightarrow>
          if a = b then Some (a # u)
          else if a = 1 then Some (b # u)
          else if b = 1 then Some (a # u)
          else None)"
| "broadcast_shapes _ _ = None"

text \<open>The first \<open>k\<close> consecutive blocks of \<open>n\<close> elements of a list.\<close>

fun chunks :: "nat \<Rightarrow> nat \<Rightarrow> 'a list \<Rightarrow> 'a list list" where
  "chunks n 0 d = []"
| "chunks n (Suc k) d = take n d # chunks n k (drop n d)"

text \<open>
  The elements of an array of shape \<open>s\<close> stretched to the shape \<open>t\<close> it broadcasts to:
  a dimension of equal size is traversed block by block, a dimension of size one is
  repeated.
\<close>

fun broadcast_to :: "nat list \<Rightarrow> nat list \<Rightarrow> 'a list \<Rightarrow> 'a list" where
  "broadcast_to (a # s) (b # t) d =
     (if a = b then concat (map (broadcast_to s t) (chunks (prod_list s) a d))
      else concat (replicate b (broadcast_to s t d)))"
| "broadcast_to _ _ d = d"

text \<open>A binary elementwise operation (a numpy ufunc) on two arrays.\<close>

definition np_binop :: "('a \<Rightarrow> 'b \<Rightarrow> 'c) \<Rightarrow> 'a ndarray \<Rightarrow> 'b ndarray \<Rightarrow> 'c ndarray option" where
  "np_binop f a b =
     (let n = max (length (shape a)) (length (shape b));
          sa = pad_shape n (shape a);
          sb = pad_shape n (shape b)
      in case broadcast_shapes sa sb of
           None \<Rightarrow> None
         | Some t \<Rightarrow>
             Some \<lparr>shape = t,
                   data = map2 f (broadcast_to sa t (data a)) (broadcast_to sb t (data b))\<rparr>)"

text \<open>A unary elementwise operation keeps the shape.\<close>

definition np_unop :: "('a \<Rightarrow> 'b) \<Rightarrow> 'a ndarray \<Rightarrow> 'b ndarray" where
  "np_unop f a = \<lparr>shape = shape a, data = map f (data a)\<rparr>"

definition np_add :: "npfloat ndarray \<Rightarrow> npfloat ndarray \<Rightarrow> npfloat ndarray option" where
  "np_add = np_binop fadd"

definition np_subtract :: "npfloat ndarray \<Rightarrow> npfloat ndarray \<Rightarrow> npfloat ndarray option" where
  "np_subtract = np_binop fsub"

definition np_divide :: "npfloat ndarray \<Rightarrow> npfloat ndarray \<Rightarrow> npfloat ndarray option" where
  "np_divide = np_binop fdiv"

definition np_pow2 :: "npfloat ndarray \<Rightarrow> npfloat ndarray" where
  "np_pow2 = np_unop fpow2"

definition np_sqrt :: "npfloat ndarray \<Rightarrow> npfloat ndarray" where
  "np_sqrt = np_unop fsqrt"

subsection \<open>The model\<close>

text \<open>
  \<^verbatim>\<open>
  def model(x, y, x_0, y_0, sigma_0, r_0, sigma_background):
      r = np.sqrt((x - x_0) ** 2 + (y - y_0) ** 2)
      return sigma_background + sigma_0 / (1 + r / r_0) ** 2
  \<close>
\<close>

definition model ::
  "npfloat ndarray \<Rightarrow> npfloat ndarray \<Rightarrow> npfloat ndarray \<Rightarrow> npfloat ndarray \<Rightarrow>
   npfloat ndarray \<Rightarrow> npfloat ndarray \<Rightarrow> npfloat ndarray \<Rightarrow> npfloat ndarray option" where
  "model x y x_0 y_0 sigma_0 r_0 sigma_background =
     do {
       dx \<leftarrow> np_subtract x x_0;
       dy \<leftarrow> np_subtract y y_0;
       s \<leftarrow> np_add (np_pow2 dx) (np_pow2 dy);
       let r = np_sqrt s;
       q \<leftarrow> np_divide r r_0;
       d \<leftarrow> np_add (scalar (Fin 1)) q;
       v \<leftarrow> np_divide sigma_0 (np_pow2 d);
       np_add sigma_background v
     }"

text \<open>
  The value the specification gives for one point: background plus peak over
  \<open>(1 + radial_distance / scale_radius)\<^sup>2\<close>. It is written twice: in the arithmetic
  of the scalars above, where it has a value at every input, and over the real numbers,
  where it is the usual formula and means something only where no divisor is zero
  (\<open>regular\<close>).
\<close>

definition radial_distance :: "npfloat \<Rightarrow> npfloat \<Rightarrow> npfloat \<Rightarrow> npfloat \<Rightarrow> npfloat" where
  "radial_distance x y x_0 y_0 = fsqrt (fadd (fpow2 (fsub x x_0)) (fpow2 (fsub y y_0)))"

definition profile ::
  "npfloat \<Rightarrow> npfloat \<Rightarrow> npfloat \<Rightarrow> npfloat \<Rightarrow> npfloat \<Rightarrow> npfloat \<Rightarrow> npfloat \<Rightarrow> npfloat" where
  "profile x y x_0 y_0 sigma_0 r_0 sigma_background =
     fadd sigma_background
       (fdiv sigma_0 (fpow2 (fadd (Fin 1) (fdiv (radial_distance x y x_0 y_0) r_0))))"


definition hubble :: "real \<Rightarrow> real \<Rightarrow> real \<Rightarrow> real \<Rightarrow> real \<Rightarrow> real \<Rightarrow> real \<Rightarrow> real" where
  "hubble x y x_0 y_0 sigma_0 r_0 sigma_background =
     sigma_background + sigma_0 / (1 + sqrt ((x - x_0)\<^sup>2 + (y - y_0)\<^sup>2) / r_0)\<^sup>2"

definition regular :: "real \<Rightarrow> real \<Rightarrow> real \<Rightarrow> real \<Rightarrow> real \<Rightarrow> bool" where
  "regular x y x_0 y_0 r_0 =
     (r_0 \<noteq> 0 \<and> 1 + sqrt ((x - x_0)\<^sup>2 + (y - y_0)\<^sup>2) / r_0 \<noteq> 0)"

subsection \<open>The fit statistic\<close>

text \<open>
  The notebook keeps its data in module-level variables, which \<^verbatim>\<open>binned_nll\<close>
  reads. They are a record that every operation on them takes and returns.
\<close>

record globals =
  xbin :: "npfloat ndarray"
  ybin :: "npfloat ndarray"
  counts :: "int ndarray"
  xx :: "npfloat ndarray"
  yy :: "npfloat ndarray"

text \<open>An int64 operand of a float64 operation is converted to float64.\<close>

definition as_float :: "int ndarray \<Rightarrow> npfloat ndarray" where
  "as_float = np_unop (\<lambda>c. Fin (real_of_int c))"

definition np_negative :: "int ndarray \<Rightarrow> int ndarray" where
  "np_negative = np_unop uminus"

definition np_multiply :: "npfloat ndarray \<Rightarrow> npfloat ndarray \<Rightarrow> npfloat ndarray option" where
  "np_multiply = np_binop fmul"

definition np_log :: "npfloat ndarray \<Rightarrow> npfloat ndarray" where
  "np_log = np_unop flog"

definition np_greater :: "npfloat ndarray \<Rightarrow> npfloat ndarray \<Rightarrow> bool ndarray option" where
  "np_greater = np_binop fgt"

text \<open>\<^verbatim>\<open>np.where(c, a, b)\<close> broadcasts its three operands and selects elementwise; both
  \<open>a\<close> and \<open>b\<close> have been computed in full before.\<close>

definition np_where :: "bool ndarray \<Rightarrow> 'a ndarray \<Rightarrow> 'a ndarray \<Rightarrow> 'a ndarray option" where
  "np_where c a b =
     do {
       ab \<leftarrow> np_binop Pair a b;
       np_binop (\<lambda>t p. if t then fst p else snd p) c ab
     }"

text \<open>The sum of a list of floats, and \<^verbatim>\<open>a.sum()\<close> over all elements of an array.\<close>

definition fsum :: "npfloat list \<Rightarrow> npfloat" where
  "fsum vs = foldr fadd vs (Fin 0)"

definition np_sum :: "npfloat ndarray \<Rightarrow> npfloat" where
  "np_sum a = fsum (data a)"

text \<open>
  \<^verbatim>\<open>
  def binned_nll(x_0, y_0, sigma_0, r_0, sigma_background):
      mu = model(xbin, ybin, x_0, y_0, sigma_0, r_0, sigma_background)
      x = counts
      nll = np.where(mu > 0, -x * np.log(mu) + mu, 1)
      return nll.sum()
  \<close>
  The result is the value returned (\<open>None\<close> when an operation raises) and the
  module-level variables after the call.
\<close>

definition binned_nll ::
  "npfloat \<Rightarrow> npfloat \<Rightarrow> npfloat \<Rightarrow> npfloat \<Rightarrow> npfloat \<Rightarrow> globals \<Rightarrow> npfloat option \<times> globals" where
  "binned_nll x_0 y_0 sigma_0 r_0 sigma_background g =
     (do {
        mu \<leftarrow> model (xbin g) (ybin g) (scalar x_0) (scalar y_0) (scalar sigma_0) (scalar r_0)
               (scalar sigma_background);
        let x = counts g;
        positive \<leftarrow> np_greater mu (scalar (Fin 0));
        t \<leftarrow> np_multiply (as_float (np_negative x)) (np_log mu);
        e \<leftarrow> np_add t mu;
        nll \<leftarrow> np_where positive e (scalar (Fin 1));
        Some (np_sum nll)
      }, g)"

text \<open>The contribution of one cell as the specification gives it: \<open>\<mu> - x \<sqdot> log \<mu>\<close> for a
  positive intensity \<open>\<mu>\<close> and observed count \<open>x\<close>, and the penalty \<open>1\<close> otherwise.\<close>

definition cell_nll :: "npfloat \<Rightarrow> int \<Rightarrow> npfloat" where
  "cell_nll mu x =
     (if fgt mu (Fin 0) then fsub mu (fmul (Fin (real_of_int x)) (flog mu)) else Fin 1)"

definition cell_nll_real :: "real \<Rightarrow> int \<Rightarrow> real" where
  "cell_nll_real mu x = (if 0 < mu then mu - real_of_int x * ln mu else 1)"

subsection \<open>Faking the data\<close>

text \<open>
  \<^verbatim>\<open>
  x_0, y_0 = 0, 0
  r_0 = 10
  sigma_0 = 100
  sigma_background = 10
  true_pars = (x_0, y_0, sigma_0, r_0, sigma_background)
  x_min, x_max = -100, 100
  y_min, y_max = -80, 80
  binsize = 0.5
  \<close>
\<close>

definition true_pars :: "real \<times> real \<times> real \<times> real \<times> real" where
  "true_pars = (0, 0, 100, 10, 10)"

definition x_min :: real where "x_min = - 100"
definition x_max :: real where "x_max = 100"
definition y_min :: real where "y_min = - 80"
definition y_max :: real where "y_max = 80"
definition binsize :: real where "binsize = 0.5"

text \<open>
  \<^verbatim>\<open>np.arange(start, stop, step)\<close> has \<open>\<lceil>(stop - start) / step\<rceil>\<close> elements
  \<open>start + i * step\<close> (none when that number is negative) and raises for a zero step.
  \<^verbatim>\<open>np.meshgrid(xs, ys)\<close> gives two arrays of shape \<open>[len ys, len xs]\<close>: the first
  repeats \<open>xs\<close> in every row, the second holds \<open>ys\<close> down every column.
\<close>

definition arange :: "real \<Rightarrow> real \<Rightarrow> real \<Rightarrow> npfloat list option" where
  "arange start stop step =
     (if step = 0 then None
      else Some (map (\<lambda>i. Fin (start + real i * step)) [0..<nat \<lceil>(stop - start) / step\<rceil>]))"

definition meshgrid :: "'a list \<Rightarrow> 'a list \<Rightarrow> 'a ndarray \<times> 'a ndarray" where
  "meshgrid xs ys =
     (\<lparr>shape = [length ys, length xs], data = concat (replicate (length ys) xs)\<rparr>,
      \<lparr>shape = [length ys, length xs], data = concat (map (replicate (length xs)) ys)\<rparr>)"

text \<open>
  The random number generator is the sequence of Poisson outcomes and the sequence of
  samples of \<open>[0, 1)\<close> it is going to produce; drawing removes a prefix.
  \<^verbatim>\<open>np.random.poisson(lam)\<close> returns one count per element of \<open>lam\<close> and raises when
  an element is negative or not a number. \<^verbatim>\<open>np.random.uniform(low, high, n)\<close> returns
  \<open>low + (high - low) * u\<close> for \<open>n\<close> samples \<open>u\<close> of \<open>[0, 1)\<close>.
\<close>

record rng =
  poisson_stream :: "nat \<Rightarrow> nat"
  sample_stream :: "nat \<Rightarrow> real"

fun valid_lam :: "npfloat \<Rightarrow> bool" where
  "valid_lam (Fin a) = (0 \<le> a)"
| "valid_lam _ = False"

definition random_poisson :: "npfloat ndarray \<Rightarrow> rng \<Rightarrow> (int ndarray \<times> rng) option" where
  "random_poisson lam gen =
     (let n = length (data lam) in
      if list_all valid_lam (data lam)
      then Some (\<lparr>shape = shape lam, data = map (\<lambda>i. int (poisson_stream gen i)) [0..<n]\<rparr>,
                 gen\<lparr>poisson_stream := \<lambda>i. poisson_stream gen (i + n)\<rparr>)
      else None)"

definition random_uniform :: "real \<Rightarrow> real \<Rightarrow> nat \<Rightarrow> rng \<Rightarrow> npfloat ndarray \<times> rng" where
  "random_uniform low high n gen =
     (\<lparr>shape = [n], data = map (\<lambda>i. Fin (low + (high - low) * sample_stream gen i)) [0..<n]\<rparr>,
      gen\<lparr>sample_stream := \<lambda>i. sample_stream gen (i + n)\<rparr>)"

text \<open>\<^verbatim>\<open>a.size\<close> and \<^verbatim>\<open>a.flatten()\<close>.\<close>

definition np_size :: "'a ndarray \<Rightarrow> nat" where
  "np_size a = prod_list (shape a)"

definition np_flatten :: "'a ndarray \<Rightarrow> 'a ndarray" where
  "np_flatten a = \<lparr>shape = [np_size a], data = data a\<rparr>"

text \<open>
  \<^verbatim>\<open>a.repeat(repeats)\<close> without an axis works on the flattened array: element \<open>k\<close>
  is repeated \<open>repeats[k]\<close> times. A single repeat count applies to every element; any
  other length mismatch and any negative count raise \<^verbatim>\<open>ValueError\<close>.
\<close>

definition np_repeat :: "'a ndarray \<Rightarrow> int ndarray \<Rightarrow> 'a ndarray option" where
  "np_repeat a repeats =
     (let d = data a; r = data repeats in
      if list_ex (\<lambda>c. c < 0) r then None
      else if length r = length d then
        (let e = concat (map2 (\<lambda>v c. replicate (nat c) v) d r)
         in Some \<lparr>shape = [length e], data = e\<rparr>)
      else if length r = 1 then
        (let e = concat (map (replicate (nat (hd r))) d)
         in Some \<lparr>shape = [length e], data = e\<rparr>)
      else None)"

text \<open>
  \<^verbatim>\<open>
  counts = np.random.poisson(model(xbin, ybin, *true_pars))
  xx = xbin.repeat(counts.flatten())
  yy = ybin.repeat(counts.flatten())
  xx += np.random.uniform(-0.5, 0.5, xx.size)
  yy += np.random.uniform(-0.5, 0.5, yy.size)
  \<close>
  on a grid \<open>xbin\<close>, \<open>ybin\<close>. The result is the module-level variables and the generator
  after the cell has run.
\<close>

definition fake_data :: "npfloat ndarray \<Rightarrow> npfloat ndarray \<Rightarrow> rng \<Rightarrow> (globals \<times> rng) option" where
  "fake_data xb yb gen0 =
     (case true_pars of (x_0, y_0, sigma_0, r_0, sigma_background) \<Rightarrow>
      do {
        lam \<leftarrow> model xb yb (scalar (Fin x_0)) (scalar (Fin y_0)) (scalar (Fin sigma_0))
                (scalar (Fin r_0)) (scalar (Fin sigma_background));
        (cnt, gen1) \<leftarrow> random_poisson lam gen0;
        xx0 \<leftarrow> np_repeat xb (np_flatten cnt);
        yy0 \<leftarrow> np_repeat yb (np_flatten cnt);
        let (jx, gen2) = random_uniform (- 0.5) 0.5 (np_size xx0) gen1;
        xx1 \<leftarrow> np_add xx0 jx;
        let (jy, gen3) = random_uniform (- 0.5) 0.5 (np_size yy0) gen2;
        yy1 \<leftarrow> np_add yy0 jy;
        Some (\<lparr>xbin = xb, ybin = yb, counts = cnt, xx = xx1, yy = yy1\<rparr>, gen3)
      })"

text \<open>
  \<^verbatim>\<open>
  xbin, ybin = np.meshgrid(np.arange(x_min, x_max, binsize),
                           np.arange(y_min, y_max, binsize))
  \<close>
\<close>

definition grid :: "(npfloat ndarray \<times> npfloat ndarray) option" where
  "grid =
     do {
       xs \<leftarrow> arange x_min x_max binsize;
       ys \<leftarrow> arange y_min y_max binsize;
       Some (meshgrid xs ys)
     }"

text \<open>The cell each unbinned sample comes from: cell \<open>k\<close> of the flattened grid, once
  for every count in it.\<close>

definition sample_cells :: "int list \<Rightarrow> nat list" where
  "sample_cells cs = concat (map2 (\<lambda>k c. replicate (nat c) k) [0..<length cs] cs)"

subsection \<open>Arrays as objects\<close>

text \<open>
  To say what a call changes, the arrays live on a heap: a list of objects, an object's
  address being its position. The module-level names hold addresses. An operation that
  returns a new array allocates it at the end of the heap; an in-place operation
  overwrites the object at an address, which every name and variable holding that
  address then sees.
\<close>

datatype pyobj = FloatArray "npfloat ndarray" | IntArray "int ndarray" | BoolArray "bool ndarray"

type_synonym heap = "pyobj list"

definition alloc :: "pyobj \<Rightarrow> heap \<Rightarrow> nat \<times> heap" where
  "alloc v h = (length h, h @ [v])"

definition deref :: "heap \<Rightarrow> nat \<Rightarrow> pyobj option" where
  "deref h a = (if a < length h then Some (h ! a) else None)"

definition store_at :: "nat \<Rightarrow> pyobj \<Rightarrow> heap \<Rightarrow> heap option" where
  "store_at a v h = (if a < length h then Some (h[a := v]) else None)"

text \<open>An operand is the array at an address or a Python number. A float64 operation
  converts an integer or Boolean array operand to float64; a condition reads any array
  as Booleans (non-zero is true).\<close>

datatype operand = At nat | Num npfloat

fun to_float :: "pyobj \<Rightarrow> npfloat ndarray" where
  "to_float (FloatArray a) = a"
| "to_float (IntArray a) = as_float a"
| "to_float (BoolArray a) = np_unop (\<lambda>t. Fin (if t then 1 else 0)) a"

fun to_bool :: "pyobj \<Rightarrow> bool ndarray" where
  "to_bool (BoolArray a) = a"
| "to_bool (FloatArray a) = np_unop (\<lambda>v. v \<noteq> Fin 0) a"
| "to_bool (IntArray a) = np_unop (\<lambda>c. c \<noteq> 0) a"

fun fetch :: "heap \<Rightarrow> operand \<Rightarrow> npfloat ndarray option" where
  "fetch h (At a) = map_option to_float (deref h a)"
| "fetch h (Num v) = Some (scalar v)"

text \<open>The operations of numpy that return a new array, on operands in the heap: the
  arithmetic and comparison ufuncs, \<^verbatim>\<open>-a\<close> (which numpy refuses for a Boolean
  array), \<^verbatim>\<open>np.where\<close>, and \<^verbatim>\<open>a.sum()\<close>, whose result is a number.\<close>

definition binop_at ::
  "(npfloat ndarray \<Rightarrow> npfloat ndarray \<Rightarrow> npfloat ndarray option) \<Rightarrow>
   operand \<Rightarrow> operand \<Rightarrow> heap \<Rightarrow> (nat \<times> heap) option" where
  "binop_at f a b h =
     do {
       x \<leftarrow> fetch h a;
       y \<leftarrow> fetch h b;
       z \<leftarrow> f x y;
       Some (alloc (FloatArray z) h)
     }"

definition unop_at ::
  "(npfloat ndarray \<Rightarrow> npfloat ndarray) \<Rightarrow> operand \<Rightarrow> heap \<Rightarrow> (nat \<times> heap) option" where
  "unop_at f a h =
     do {
       x \<leftarrow> fetch h a;
       Some (alloc (FloatArray (f x)) h)
     }"

definition greater_at :: "operand \<Rightarrow> operand \<Rightarrow> heap \<Rightarrow> (nat \<times> heap) option" where
  "greater_at a b h =
     do {
       x \<leftarrow> fetch h a;
       y \<leftarrow> fetch h b;
       z \<leftarrow> np_greater x y;
       Some (alloc (BoolArray z) h)
     }"

definition negative_at :: "nat \<Rightarrow> heap \<Rightarrow> (nat \<times> heap) option" where
  "negative_at a h =
     (case deref h a of
        Some (IntArray x) \<Rightarrow> Some (alloc (IntArray (np_negative x)) h)
      | Some (FloatArray x) \<Rightarrow> Some (alloc (FloatArray (np_unop fneg x)) h)
      | _ \<Rightarrow> None)"

definition where_at :: "nat \<Rightarrow> operand \<Rightarrow> operand \<Rightarrow> heap \<Rightarrow> (nat \<times> heap) option" where
  "where_at c a b h =
     do {
       t \<leftarrow> map_option to_bool (deref h c);
       x \<leftarrow> fetch h a;
       y \<leftarrow> fetch h b;
       z \<leftarrow> np_where t x y;
       Some (alloc (FloatArray z) h)
     }"

definition sum_at :: "nat \<Rightarrow> heap \<Rightarrow> npfloat option" where
  "sum_at a h = map_option np_sum (fetch h (At a))"

text \<open>\<^verbatim>\<open>a += b\<close>, as the data cell has it for \<open>xx\<close> and \<open>yy\<close>: the sum is written
  over the array at the address of \<open>a\<close>.\<close>

definition iadd_at :: "nat \<Rightarrow> operand \<Rightarrow> heap \<Rightarrow> heap option" where
  "iadd_at a b h =
     do {
       x \<leftarrow> fetch h (At a);
       y \<leftarrow> fetch h b;
       z \<leftarrow> np_add x y;
       store_at a (FloatArray z) h
     }"

text \<open>\<open>model\<close> and \<open>binned_nll\<close> once more, statement by statement, every intermediate
  array allocated in the order the interpreter evaluates the expressions. \<open>x = counts\<close>
  copies the address, not the array.\<close>

definition model_at ::
  "operand \<Rightarrow> operand \<Rightarrow> npfloat \<Rightarrow> npfloat \<Rightarrow> npfloat \<Rightarrow> npfloat \<Rightarrow> npfloat \<Rightarrow>
   heap \<Rightarrow> (nat \<times> heap) option" where
  "model_at x y x_0 y_0 sigma_0 r_0 sigma_background h0 =
     do {
       (dx, h1) \<leftarrow> binop_at np_subtract x (Num x_0) h0;
       (dx2, h2) \<leftarrow> unop_at np_pow2 (At dx) h1;
       (dy, h3) \<leftarrow> binop_at np_subtract y (Num y_0) h2;
       (dy2, h4) \<leftarrow> unop_at np_pow2 (At dy) h3;
       (s, h5) \<leftarrow> binop_at np_add (At dx2) (At dy2) h4;
       (r, h6) \<leftarrow> unop_at np_sqrt (At s) h5;
       (q, h7) \<leftarrow> binop_at np_divide (At r) (Num r_0) h6;
       (d, h8) \<leftarrow> binop_at np_add (Num (Fin 1)) (At q) h7;
       (d2, h9) \<leftarrow> unop_at np_pow2 (At d) h8;
       (v, h10) \<leftarrow> binop_at np_divide (Num sigma_0) (At d2) h9;
       binop_at np_add (Num sigma_background) (At v) h10
     }"

record names =
  xbin_at :: nat
  ybin_at :: nat
  counts_at :: nat
  xx_at :: nat
  yy_at :: nat

definition binned_nll_at ::
  "names \<Rightarrow> npfloat \<Rightarrow> npfloat \<Rightarrow> npfloat \<Rightarrow> npfloat \<Rightarrow> npfloat \<Rightarrow> heap \<Rightarrow> (npfloat \<times> heap) option" where
  "binned_nll_at ns x_0 y_0 sigma_0 r_0 sigma_background h0 =
     do {
       (mu, h1) \<leftarrow> model_at (At (xbin_at ns)) (At (ybin_at ns)) x_0 y_0 sigma_0 r_0 sigma_background h0;
       let x = counts_at ns;
       (positive, h2) \<leftarrow> greater_at (At mu) (Num (Fin 0)) h1;
       (nx, h3) \<leftarrow> negative_at x h2;
       (lg, h4) \<leftarrow> unop_at np_log (At mu) h3;
       (t, h5) \<leftarrow> binop_at np_multiply (At nx) (At lg) h4;
       (e, h6) \<leftarrow> binop_at np_add (At t) (At mu) h5;
       (nll, h7) \<leftarrow> where_at positive (At e) (Num (Fin 1)) h6;
       result \<leftarrow> sum_at nll h7;
       Some (result, h7)
     }"

text \<open>A heap is unchanged by a run when every object it held is still there: the run
  has only allocated.\<close>

definition unchanged :: "heap \<Rightarrow> heap \<Rightarrow> bool" where
  "unchanged h h' = (take (length h) h' = h)"

section \<open>Properties\<close>

subsection \<open>Broadcasting\<close>

lemma length_chunks: "length (chunks n k d) = k"
  by (induction k arbitrary: d) auto

lemma concat_chunks: "length d = k * n \<Longrightarrow> concat (chunks n k d) = d"
  by (induction k arbitrary: d) auto

lemma chunks_length: "length d = k * n \<Longrightarrow> c \<in> set (chunks n k d) \<Longrightarrow> length c = n"
proof (induction k arbitrary: d)
  case 0
  then show ?case by simp
next
  case (Suc k)
  have rest: "length (drop n d) = k * n" using Suc.prems(1) by simp
  from Suc.prems(2) consider "c = take n d" | "c \<in> set (chunks n k (drop n d))"
    by auto
  then show ?case
  proof cases
    case 1
    then show ?thesis using Suc.prems(1) by simp
  next
    case 2
    then show ?thesis by (rule Suc.IH [OF rest])
  qed
qed

lemma concat_replicate_const: "concat (replicate b (replicate n v)) = replicate (b * n) v"
  by (induction b) (simp_all add: replicate_add)

lemma broadcast_to_same: "length d = prod_list s \<Longrightarrow> broadcast_to s s d = d"
proof (induction s arbitrary: d)
  case Nil
  then show ?case by simp
next
  case (Cons a s)
  have len: "length d = a * prod_list s" using Cons.prems by simp
  have "map (broadcast_to s s) (chunks (prod_list s) a d) = chunks (prod_list s) a d"
    by (rule map_idI) (simp add: Cons.IH chunks_length [OF len])
  then show ?case by (simp add: concat_chunks [OF len])
qed

lemma broadcast_to_ones:
  "broadcast_to (replicate (length t) (Suc 0)) t [v] = replicate (prod_list t) v"
proof (induction t)
  case Nil
  then show ?case by simp
next
  case (Cons b t)
  show ?case
  proof (cases "b = 1")
    case True
    then show ?thesis using Cons.IH by simp
  next
    case False
    then show ?thesis using Cons.IH
      by (simp add: concat_replicate_const)
  qed
qed

lemma broadcast_shapes_same: "broadcast_shapes s s = Some s"
  by (induction s) auto

lemma broadcast_shapes_ones_r: "broadcast_shapes s (replicate (length s) (Suc 0)) = Some s"
  by (induction s) auto

lemma broadcast_shapes_ones_l: "broadcast_shapes (replicate (length s) (Suc 0)) s = Some s"
  by (induction s) auto


lemma pad_shape_same: "pad_shape (length s) s = s"
  by (simp add: pad_shape_def)

lemma pad_shape_nil: "pad_shape n [] = replicate n 1"
  by (simp add: pad_shape_def)

lemma map2_replicate_r: "map2 f xs (replicate (length xs) v) = map (\<lambda>x. f x v) xs"
  by (induction xs) auto

lemma map2_replicate_l: "map2 f (replicate (length ys) v) ys = map (f v) ys"
  by (induction ys) auto

lemma np_binop_same:
  assumes "wellformed a" "wellformed b" "shape a = shape b"
  shows "np_binop f a b = Some \<lparr>shape = shape a, data = map2 f (data a) (data b)\<rparr>"
  using assms
  by (simp add: np_binop_def wellformed_def pad_shape_same broadcast_shapes_same
      broadcast_to_same)

lemma np_binop_scalar_r:
  assumes "wellformed a"
  shows "np_binop f a (scalar v) = Some \<lparr>shape = shape a, data = map (\<lambda>x. f x v) (data a)\<rparr>"
proof -
  have "map2 f (data a) (replicate (prod_list (shape a)) v) = map (\<lambda>x. f x v) (data a)"
    using assms map2_replicate_r [of f "data a" v] by (simp add: wellformed_def)
  with assms show ?thesis
    by (simp add: np_binop_def scalar_def wellformed_def pad_shape_same pad_shape_nil Let_def
        broadcast_shapes_ones_r broadcast_to_same broadcast_to_ones)
qed

lemma np_binop_scalar_l:
  assumes "wellformed b"
  shows "np_binop f (scalar v) b = Some \<lparr>shape = shape b, data = map (f v) (data b)\<rparr>"
proof -
  have "map2 f (replicate (prod_list (shape b)) v) (data b) = map (f v) (data b)"
    using assms map2_replicate_l [of f "data b" v] by (simp add: wellformed_def)
  with assms show ?thesis
    by (simp add: np_binop_def scalar_def wellformed_def pad_shape_same pad_shape_nil Let_def
        broadcast_shapes_ones_l broadcast_to_same broadcast_to_ones)
qed

lemma wellformed_lit: "wellformed \<lparr>shape = s, data = d\<rparr> = (length d = prod_list s)"
  by (simp add: wellformed_def)

lemma model_elementwise:
  assumes "wellformed x" "wellformed y" "shape x = shape y"
  shows "model x y (scalar x_0) (scalar y_0) (scalar sigma_0) (scalar r_0) (scalar sigma_background)
    = Some \<lparr>shape = shape x,
            data = map2 (\<lambda>a b. profile a b x_0 y_0 sigma_0 r_0 sigma_background) (data x) (data y)\<rparr>"
proof -
  have len: "length (data x) = prod_list (shape y)" "length (data y) = prod_list (shape y)"
    using assms by (simp_all add: wellformed_def)
  have dx: "np_subtract x (scalar x_0)
      = Some \<lparr>shape = shape y, data = map (\<lambda>a. fsub a x_0) (data x)\<rparr>"
    using assms by (simp add: np_subtract_def np_binop_scalar_r)
  have dy: "np_subtract y (scalar y_0)
      = Some \<lparr>shape = shape y, data = map (\<lambda>a. fsub a y_0) (data y)\<rparr>"
    using assms by (simp add: np_subtract_def np_binop_scalar_r)
  show ?thesis
    unfolding model_def dx dy
    using len assms(3)
    apply (simp add: np_add_def np_divide_def np_pow2_def np_sqrt_def np_unop_def
        np_binop_same np_binop_scalar_r np_binop_scalar_l wellformed_lit)
    apply (simp add: profile_def radial_distance_def zip_map_map comp_def case_prod_beta)
    done
qed


lemma wellformed_scalar: "wellformed (scalar v)"
  by (simp add: wellformed_def scalar_def)

lemma model_scalars:
  "model (scalar x) (scalar y) (scalar x_0) (scalar y_0) (scalar sigma_0) (scalar r_0)
     (scalar sigma_background)
   = Some (scalar (profile x y x_0 y_0 sigma_0 r_0 sigma_background))"
  using model_elementwise [OF wellformed_scalar wellformed_scalar, of x y]
  by (simp add: scalar_def)

lemma radial_distance_Fin:
  "radial_distance (Fin x) (Fin y) (Fin x_0) (Fin y_0) = Fin (sqrt ((x - x_0)\<^sup>2 + (y - y_0)\<^sup>2))"
  by (simp add: radial_distance_def fpow2_def fsub_def power2_eq_square)

lemma profile_regular:
  assumes "regular x y x_0 y_0 r_0"
  shows "profile (Fin x) (Fin y) (Fin x_0) (Fin y_0) (Fin sigma_0) (Fin r_0) (Fin sigma_background)
    = Fin (hubble x y x_0 y_0 sigma_0 r_0 sigma_background)"
  using assms
  by (simp add: profile_def radial_distance_Fin regular_def hubble_def fpow2_def power2_eq_square)

subsection \<open>The model at one point\<close>

lemma sqrt_25: "sqrt 25 = 5"
  using real_sqrt_abs [of 5] by simp

lemma hubble_nonneg:
  assumes "0 < r_0" "0 \<le> sigma_0" "0 \<le> sigma_background"
  shows "0 \<le> hubble x y x_0 y_0 sigma_0 r_0 sigma_background"
  using assms by (simp add: hubble_def)

lemma regular_pos: "0 < r_0 \<Longrightarrow> regular x y x_0 y_0 r_0"
proof -
  assume r: "0 < r_0"
  have "0 \<le> sqrt ((x - x_0)\<^sup>2 + (y - y_0)\<^sup>2) / r_0" using r by simp
  then have "1 + sqrt ((x - x_0)\<^sup>2 + (y - y_0)\<^sup>2) / r_0 \<noteq> 0" by linarith
  then show ?thesis using r by (simp add: regular_def)
qed

lemma hubble_antimono:
  assumes "0 < sigma_0" "0 < r_0"
    and "sqrt ((x1 - x_0)\<^sup>2 + (y1 - y_0)\<^sup>2) \<le> sqrt ((x2 - x_0)\<^sup>2 + (y2 - y_0)\<^sup>2)"
  shows "hubble x2 y2 x_0 y_0 sigma_0 r_0 sigma_background
       \<le> hubble x1 y1 x_0 y_0 sigma_0 r_0 sigma_background"
proof -
  define r1 where "r1 = sqrt ((x1 - x_0)\<^sup>2 + (y1 - y_0)\<^sup>2)"
  define r2 where "r2 = sqrt ((x2 - x_0)\<^sup>2 + (y2 - y_0)\<^sup>2)"
  have r1: "0 \<le> r1" by (simp add: r1_def)
  have le: "r1 \<le> r2" using assms(3) by (simp add: r1_def r2_def)
  have d1: "0 < 1 + r1 / r_0" using r1 assms(2) by (simp add: add_pos_nonneg)
  have "r1 / r_0 \<le> r2 / r_0" using le assms(2) by (simp add: divide_right_mono)
  then have d12: "1 + r1 / r_0 \<le> 1 + r2 / r_0" by simp
  have sq: "(1 + r1 / r_0)\<^sup>2 \<le> (1 + r2 / r_0)\<^sup>2"
    using d1 d12 by (simp add: power_mono)
  have pos1: "0 < (1 + r1 / r_0)\<^sup>2" using d1 by simp
  with sq have pos2: "0 < (1 + r2 / r_0)\<^sup>2" by linarith
  have "sigma_0 / (1 + r2 / r_0)\<^sup>2 \<le> sigma_0 / (1 + r1 / r_0)\<^sup>2"
    using sq assms(1) pos1 pos2 by (intro divide_left_mono mult_pos_pos) simp_all
  then show ?thesis by (simp add: hubble_def r1_def r2_def)
qed

subsection \<open>The model evaluator\<close>

lemma profiles_regular:
  assumes "\<forall>(a, b) \<in> set (zip xs ys). regular a b x_0 y_0 r_0"
  shows "map2 (\<lambda>a b. profile a b (Fin x_0) (Fin y_0) (Fin sigma_0) (Fin r_0) (Fin sigma_background))
           (map Fin xs) (map Fin ys)
       = map Fin (map2 (\<lambda>a b. hubble a b x_0 y_0 sigma_0 r_0 sigma_background) xs ys)"
proof -
  have "profile (Fin a) (Fin b) (Fin x_0) (Fin y_0) (Fin sigma_0) (Fin r_0) (Fin sigma_background)
      = Fin (hubble a b x_0 y_0 sigma_0 r_0 sigma_background)"
    if "(a, b) \<in> set (zip xs ys)" for a b
    using assms that by (intro profile_regular) blast
  then show ?thesis by (auto simp: zip_map_map)
qed

text \<open>
  C1. On coordinate arrays of one shape and five scalar parameters, \<open>model\<close> returns
  the array of that shape whose element at each position is the profile of the
  coordinates at that position, in the arithmetic of float64. When the coordinates and
  the parameters are real numbers and the formula divides by no zero in any position,
  that element is the real number \<open>sigma_background + sigma_0 / (1 + r / r_0)\<^sup>2\<close>
  with \<open>r = sqrt ((x - x_0)\<^sup>2 + (y - y_0)\<^sup>2)\<close>. A scalar is the array of shape \<open>[]\<close>.
\<close>

theorem model_returns_profile:
  "(wellformed x \<and> wellformed y \<and> shape x = shape y \<longrightarrow>
      model x y (scalar (Fin x_0)) (scalar (Fin y_0)) (scalar (Fin sigma_0)) (scalar (Fin r_0))
        (scalar (Fin sigma_background))
      = Some \<lparr>shape = shape x,
              data = map2 (\<lambda>a b. profile a b (Fin x_0) (Fin y_0) (Fin sigma_0) (Fin r_0)
                                    (Fin sigma_background)) (data x) (data y)\<rparr>)
   \<and> (wellformed x \<and> wellformed y \<and> shape x = shape y
      \<and> data x = map Fin xs \<and> data y = map Fin ys
      \<and> (\<forall>(a, b) \<in> set (zip xs ys). regular a b x_0 y_0 r_0) \<longrightarrow>
      model x y (scalar (Fin x_0)) (scalar (Fin y_0)) (scalar (Fin sigma_0)) (scalar (Fin r_0))
        (scalar (Fin sigma_background))
      = Some \<lparr>shape = shape x,
              data = map Fin (map2 (\<lambda>a b. sigma_background
                                 + sigma_0 / (1 + sqrt ((a - x_0)\<^sup>2 + (b - y_0)\<^sup>2) / r_0)\<^sup>2)
                               xs ys)\<rparr>)"
proof (intro conjI impI)
  assume "wellformed x \<and> wellformed y \<and> shape x = shape y"
  then show "model x y (scalar (Fin x_0)) (scalar (Fin y_0)) (scalar (Fin sigma_0)) (scalar (Fin r_0))
        (scalar (Fin sigma_background))
      = Some \<lparr>shape = shape x,
              data = map2 (\<lambda>a b. profile a b (Fin x_0) (Fin y_0) (Fin sigma_0) (Fin r_0)
                                    (Fin sigma_background)) (data x) (data y)\<rparr>"
    by (simp add: model_elementwise)
next
  assume h: "wellformed x \<and> wellformed y \<and> shape x = shape y
      \<and> data x = map Fin xs \<and> data y = map Fin ys
      \<and> (\<forall>(a, b) \<in> set (zip xs ys). regular a b x_0 y_0 r_0)"
  then have wf: "wellformed x" "wellformed y" "shape x = shape y"
    and d: "data x = map Fin xs" "data y = map Fin ys"
    and r: "\<forall>(a, b) \<in> set (zip xs ys). regular a b x_0 y_0 r_0"
    by blast+
  show "model x y (scalar (Fin x_0)) (scalar (Fin y_0)) (scalar (Fin sigma_0)) (scalar (Fin r_0))
        (scalar (Fin sigma_background))
      = Some \<lparr>shape = shape x,
              data = map Fin (map2 (\<lambda>a b. sigma_background
                                 + sigma_0 / (1 + sqrt ((a - x_0)\<^sup>2 + (b - y_0)\<^sup>2) / r_0)\<^sup>2)
                               xs ys)\<rparr>"
    unfolding model_elementwise [OF wf] d profiles_regular [OF r] hubble_def ..
qed

theorem model_returns_profile_witness:
  "wellformed \<lparr>shape = [1, 2], data = [Fin 0, Fin 3]\<rparr>
   \<and> wellformed \<lparr>shape = [1, 2], data = [Fin 0, Fin 4]\<rparr>
   \<and> regular 0 0 0 0 10 \<and> regular 3 4 0 0 10
   \<and> model \<lparr>shape = [1, 2], data = [Fin 0, Fin 3]\<rparr> \<lparr>shape = [1, 2], data = [Fin 0, Fin 4]\<rparr>
       (scalar (Fin 0)) (scalar (Fin 0)) (scalar (Fin 100)) (scalar (Fin 10)) (scalar (Fin 10))
     = Some \<lparr>shape = [1, 2], data = [Fin 110, Fin (490 / 9)]\<rparr>"
proof -
  let ?x = "\<lparr>shape = [1, 2], data = [Fin 0, Fin 3]\<rparr>"
  let ?y = "\<lparr>shape = [1, 2], data = [Fin 0, Fin 4]\<rparr>"
  have reg: "regular 0 0 0 0 10" "regular 3 4 0 0 10"
    by (simp_all add: regular_def sqrt_25)
  have wf: "wellformed ?x" "wellformed ?y"
    by (simp_all add: wellformed_def)
  have "model ?x ?y (scalar (Fin 0)) (scalar (Fin 0)) (scalar (Fin 100)) (scalar (Fin 10))
          (scalar (Fin 10))
      = Some \<lparr>shape = shape ?x,
              data = map Fin (map2 (\<lambda>a b. 10 + 100 / (1 + sqrt ((a - 0)\<^sup>2 + (b - 0)\<^sup>2) / 10)\<^sup>2)
                               [0, 3] [0, 4])\<rparr>"
    by (rule model_returns_profile [THEN conjunct2, rule_format]) (use wf reg in simp)
  then have "model ?x ?y (scalar (Fin 0)) (scalar (Fin 0)) (scalar (Fin 100)) (scalar (Fin 10))
          (scalar (Fin 10))
      = Some \<lparr>shape = [1, 2], data = [Fin 110, Fin (490 / 9)]\<rparr>"
    by (simp add: sqrt_25 power2_eq_square)
  with wf reg show ?thesis by simp
qed

text \<open>
  C5. With \<open>r_0\<close> non-zero, \<open>model\<close> at the centre \<open>(x_0, y_0)\<close> is
  \<open>sigma_background + sigma_0\<close>.
\<close>

theorem model_at_centre:
  "r_0 \<noteq> 0 \<Longrightarrow>
   model (scalar (Fin x_0)) (scalar (Fin y_0)) (scalar (Fin x_0)) (scalar (Fin y_0))
     (scalar (Fin sigma_0)) (scalar (Fin r_0)) (scalar (Fin sigma_background))
   = Some (scalar (Fin (sigma_background + sigma_0)))"
  by (simp add: model_scalars profile_def radial_distance_Fin fpow2_def)

theorem model_at_centre_witness:
  "(10::real) \<noteq> 0 \<and>
   model (scalar (Fin 0)) (scalar (Fin 0)) (scalar (Fin 0)) (scalar (Fin 0))
     (scalar (Fin 100)) (scalar (Fin 10)) (scalar (Fin 10))
   = Some (scalar (Fin 110))"
  using model_at_centre [of 10 0 0 100 10] by simp

text \<open>
  C6. With \<open>r_0 > 0\<close>, \<open>sigma_0 \<ge> 0\<close> and \<open>sigma_background \<ge> 0\<close>, \<open>model\<close> returns
  a real number that is not negative, at every point.
\<close>

theorem model_nonneg:
  assumes "0 < r_0" "0 \<le> sigma_0" "0 \<le> sigma_background"
  shows "\<exists>v. model (scalar (Fin x)) (scalar (Fin y)) (scalar (Fin x_0)) (scalar (Fin y_0))
               (scalar (Fin sigma_0)) (scalar (Fin r_0)) (scalar (Fin sigma_background))
             = Some (scalar (Fin v)) \<and> 0 \<le> v"
proof (intro exI conjI)
  show "model (scalar (Fin x)) (scalar (Fin y)) (scalar (Fin x_0)) (scalar (Fin y_0))
      (scalar (Fin sigma_0)) (scalar (Fin r_0)) (scalar (Fin sigma_background))
    = Some (scalar (Fin (hubble x y x_0 y_0 sigma_0 r_0 sigma_background)))"
    using assms(1) by (simp add: model_scalars profile_regular regular_pos)
  show "0 \<le> hubble x y x_0 y_0 sigma_0 r_0 sigma_background"
    by (rule hubble_nonneg [OF assms])
qed

theorem model_nonneg_witness:
  "(0::real) < 10 \<and> (0::real) \<le> 100 \<and> (0::real) \<le> 10 \<and>
   (\<exists>v. model (scalar (Fin 3)) (scalar (Fin 4)) (scalar (Fin 0)) (scalar (Fin 0))
               (scalar (Fin 100)) (scalar (Fin 10)) (scalar (Fin 10))
             = Some (scalar (Fin v)) \<and> 0 \<le> v)"
  using model_nonneg [of 10 100 10 3 4 0 0] by simp

text \<open>
  C7, amended. With \<open>sigma_0 > 0\<close> and \<open>r_0 > 0\<close>, \<open>model\<close> does not increase with the
  radial distance it computes: of two points, the one whose computed distance from
  \<open>(x_0, y_0)\<close> is not the greater has a value that is not the smaller, and neither
  value is NaN. Without \<open>r_0 > 0\<close> this fails: with \<open>r_0 = -10\<close> the value at distance
  5 is greater than the value at the centre.
\<close>

theorem model_nonincreasing:
  assumes "0 < sigma_0" "0 < r_0"
    and "\<not> fgt (radial_distance (Fin x1) (Fin y1) (Fin x_0) (Fin y_0))
               (radial_distance (Fin x2) (Fin y2) (Fin x_0) (Fin y_0))"
  shows "\<exists>v1 v2.
      model (scalar (Fin x1)) (scalar (Fin y1)) (scalar (Fin x_0)) (scalar (Fin y_0))
        (scalar (Fin sigma_0)) (scalar (Fin r_0)) (scalar (Fin sigma_background))
      = Some (scalar v1)
    \<and> model (scalar (Fin x2)) (scalar (Fin y2)) (scalar (Fin x_0)) (scalar (Fin y_0))
        (scalar (Fin sigma_0)) (scalar (Fin r_0)) (scalar (Fin sigma_background))
      = Some (scalar v2)
    \<and> \<not> fgt v2 v1 \<and> v1 \<noteq> NaN \<and> v2 \<noteq> NaN"
proof -
  have le: "sqrt ((x1 - x_0)\<^sup>2 + (y1 - y_0)\<^sup>2) \<le> sqrt ((x2 - x_0)\<^sup>2 + (y2 - y_0)\<^sup>2)"
    using assms(3) by (simp add: radial_distance_Fin)
  have m1: "model (scalar (Fin x1)) (scalar (Fin y1)) (scalar (Fin x_0)) (scalar (Fin y_0))
      (scalar (Fin sigma_0)) (scalar (Fin r_0)) (scalar (Fin sigma_background))
    = Some (scalar (Fin (hubble x1 y1 x_0 y_0 sigma_0 r_0 sigma_background)))"
    using assms(2) by (simp add: model_scalars profile_regular regular_pos)
  have m2: "model (scalar (Fin x2)) (scalar (Fin y2)) (scalar (Fin x_0)) (scalar (Fin y_0))
      (scalar (Fin sigma_0)) (scalar (Fin r_0)) (scalar (Fin sigma_background))
    = Some (scalar (Fin (hubble x2 y2 x_0 y_0 sigma_0 r_0 sigma_background)))"
    using assms(2) by (simp add: model_scalars profile_regular regular_pos)
  have "\<not> fgt (Fin (hubble x2 y2 x_0 y_0 sigma_0 r_0 sigma_background))
               (Fin (hubble x1 y1 x_0 y_0 sigma_0 r_0 sigma_background))"
    using hubble_antimono [OF assms(1,2) le, of sigma_background] by simp
  with m1 m2 show ?thesis by blast
qed

theorem model_nonincreasing_witness:
  "(0::real) < 100 \<and> (0::real) < 10
   \<and> \<not> fgt (radial_distance (Fin 0) (Fin 0) (Fin 0) (Fin 0))
             (radial_distance (Fin 3) (Fin 4) (Fin 0) (Fin 0))
   \<and> (\<exists>v1 v2.
      model (scalar (Fin 0)) (scalar (Fin 0)) (scalar (Fin 0)) (scalar (Fin 0))
        (scalar (Fin 100)) (scalar (Fin 10)) (scalar (Fin 10))
      = Some (scalar v1)
    \<and> model (scalar (Fin 3)) (scalar (Fin 4)) (scalar (Fin 0)) (scalar (Fin 0))
        (scalar (Fin 100)) (scalar (Fin 10)) (scalar (Fin 10))
      = Some (scalar v2)
    \<and> \<not> fgt v2 v1 \<and> v1 \<noteq> NaN \<and> v2 \<noteq> NaN)"
proof -
  have h: "\<not> fgt (radial_distance (Fin 0) (Fin 0) (Fin 0) (Fin 0))
             (radial_distance (Fin 3) (Fin 4) (Fin 0) (Fin 0))"
    by (simp add: radial_distance_Fin)
  have p: "(0::real) < 100" "(0::real) < 10" by simp_all
  from model_nonincreasing [OF p h, of 10] h p show ?thesis by blast
qed

theorem model_increasing_for_negative_radius_counterexample:
  "(0::real) < 1
   \<and> sqrt ((0 - 0)\<^sup>2 + (0 - 0)\<^sup>2) < sqrt ((5 - 0)\<^sup>2 + (0 - 0)\<^sup>2)
   \<and> model (scalar (Fin 0)) (scalar (Fin 0)) (scalar (Fin 0)) (scalar (Fin 0))
        (scalar (Fin 1)) (scalar (Fin (- 10))) (scalar (Fin 0))
      = Some (scalar (Fin 1))
   \<and> model (scalar (Fin 5)) (scalar (Fin 0)) (scalar (Fin 0)) (scalar (Fin 0))
        (scalar (Fin 1)) (scalar (Fin (- 10))) (scalar (Fin 0))
      = Some (scalar (Fin 4))
   \<and> \<not> (4::real) < 1"
  by (simp add: model_scalars profile_def radial_distance_Fin fpow2_def sqrt_25)









subsection \<open>The likelihood objective\<close>

lemma cell_nll_source:
  "fadd (fmul (Fin (- a)) l) mu = fsub mu (fmul (Fin a) l)"
  by (cases l; cases mu) (simp_all add: fsub_def signed_inf_def)

lemma binned_nll_cells:
  assumes "wellformed (xbin g)" "wellformed (ybin g)" "wellformed (counts g)"
    and "shape (xbin g) = shape (ybin g)" "shape (counts g) = shape (xbin g)"
  shows "fst (binned_nll x_0 y_0 sigma_0 r_0 sigma_background g)
    = Some (fsum (map (\<lambda>(a, b, c). cell_nll (profile a b x_0 y_0 sigma_0 r_0 sigma_background) c)
                   (zip (data (xbin g)) (zip (data (ybin g)) (data (counts g))))))"
proof -
  let ?s = "shape (xbin g)"
  let ?mu = "map2 (\<lambda>a b. profile a b x_0 y_0 sigma_0 r_0 sigma_background)
               (data (xbin g)) (data (ybin g))"
  have len: "length (data (xbin g)) = prod_list ?s" "length (data (ybin g)) = prod_list ?s"
    "length (data (counts g)) = prod_list ?s"
    using assms by (simp_all add: wellformed_def)
  have mu: "model (xbin g) (ybin g) (scalar x_0) (scalar y_0) (scalar sigma_0) (scalar r_0)
      (scalar sigma_background) = Some \<lparr>shape = ?s, data = ?mu\<rparr>"
    using assms by (simp add: model_elementwise)
  have pos: "np_greater \<lparr>shape = ?s, data = ?mu\<rparr> (scalar (Fin 0))
      = Some \<lparr>shape = ?s, data = map (\<lambda>m. fgt m (Fin 0)) ?mu\<rparr>"
    using len by (simp add: np_greater_def np_binop_scalar_r wellformed_lit)
  have t: "np_multiply (as_float (np_negative (counts g))) (np_log \<lparr>shape = ?s, data = ?mu\<rparr>)
      = Some \<lparr>shape = ?s,
              data = map2 fmul (map (\<lambda>c. Fin (real_of_int (- c))) (data (counts g)))
                       (map flog ?mu)\<rparr>"
    using len assms(5)
    by (simp add: np_multiply_def as_float_def np_negative_def np_log_def np_unop_def
        np_binop_same wellformed_lit comp_def)
  let ?t = "map2 fmul (map (\<lambda>c. Fin (real_of_int (- c))) (data (counts g))) (map flog ?mu)"
  have e: "np_add \<lparr>shape = ?s, data = ?t\<rparr> \<lparr>shape = ?s, data = ?mu\<rparr>
      = Some \<lparr>shape = ?s, data = map2 fadd ?t ?mu\<rparr>"
    using len by (simp add: np_add_def np_binop_same wellformed_lit)
  let ?e = "map2 fadd ?t ?mu"
  have w: "np_where \<lparr>shape = ?s, data = map (\<lambda>m. fgt m (Fin 0)) ?mu\<rparr>
        \<lparr>shape = ?s, data = ?e\<rparr> (scalar (Fin 1))
      = Some \<lparr>shape = ?s,
              data = map2 (\<lambda>t p. if t then fst p else snd p) (map (\<lambda>m. fgt m (Fin 0)) ?mu)
                       (map (\<lambda>v. (v, Fin 1)) ?e)\<rparr>"
    using len by (simp add: np_where_def np_binop_scalar_r np_binop_same wellformed_lit)
  have cells: "map2 (\<lambda>t p. if t then fst p else snd p) (map (\<lambda>m. fgt m (Fin 0)) ?mu)
        (map (\<lambda>v. (v, Fin 1)) ?e)
      = map (\<lambda>(a, b, c). cell_nll (profile a b x_0 y_0 sigma_0 r_0 sigma_background) c)
          (zip (data (xbin g)) (zip (data (ybin g)) (data (counts g))))"
    using len by (intro nth_equalityI) (simp_all add: cell_nll_def cell_nll_source)
  show ?thesis
    by (simp only: binned_nll_def fst_conv Let_def mu pos t e w cells np_sum_def
        Option.bind.bind_lunit ndarray.select_convs)
qed


lemma fsum_Fin: "fsum (map Fin rs) = Fin (sum_list rs)"
  by (induction rs) (simp_all add: fsum_def)

lemma cell_nll_Fin: "cell_nll (Fin m) c = Fin (cell_nll_real m c)"
  by (simp add: cell_nll_def cell_nll_real_def fsub_def)

lemma cells_regular:
  assumes "\<forall>(a, b) \<in> set (zip xs ys). regular a b x_0 y_0 r_0"
  shows "map (\<lambda>(a, b, c). cell_nll (profile a b (Fin x_0) (Fin y_0) (Fin sigma_0) (Fin r_0)
                                     (Fin sigma_background)) c)
           (zip (map Fin xs) (zip (map Fin ys) cs))
       = map Fin (map (\<lambda>(a, b, c). cell_nll_real (hubble a b x_0 y_0 sigma_0 r_0 sigma_background) c)
           (zip xs (zip ys cs)))"
proof (intro nth_equalityI)
  show "length (map (\<lambda>(a, b, c). cell_nll (profile a b (Fin x_0) (Fin y_0) (Fin sigma_0) (Fin r_0)
                                     (Fin sigma_background)) c)
           (zip (map Fin xs) (zip (map Fin ys) cs)))
      = length (map Fin (map (\<lambda>(a, b, c). cell_nll_real (hubble a b x_0 y_0 sigma_0 r_0 sigma_background) c)
           (zip xs (zip ys cs))))"
    by simp
next
  fix i
  assume "i < length (map (\<lambda>(a, b, c). cell_nll (profile a b (Fin x_0) (Fin y_0) (Fin sigma_0) (Fin r_0)
                                     (Fin sigma_background)) c)
           (zip (map Fin xs) (zip (map Fin ys) cs)))"
  then have i: "i < length xs" "i < length ys" "i < length cs" by simp_all
  then have "(xs ! i, ys ! i) \<in> set (zip xs ys)"
    by (metis length_zip min_less_iff_conj nth_mem nth_zip)
  with assms have "regular (xs ! i) (ys ! i) x_0 y_0 r_0" by blast
  then show "map (\<lambda>(a, b, c). cell_nll (profile a b (Fin x_0) (Fin y_0) (Fin sigma_0) (Fin r_0)
                                     (Fin sigma_background)) c)
           (zip (map Fin xs) (zip (map Fin ys) cs)) ! i
       = map Fin (map (\<lambda>(a, b, c). cell_nll_real (hubble a b x_0 y_0 sigma_0 r_0 sigma_background) c)
           (zip xs (zip ys cs))) ! i"
    using i by (simp add: profile_regular cell_nll_Fin)
qed

text \<open>
  C2. On a grid and counts of one shape, \<open>binned_nll\<close> returns the sum over all cells of
  the cell's contribution: \<open>\<mu> - x \<sqdot> log \<mu>\<close> where the model intensity \<open>\<mu>\<close> of the cell is
  positive, \<open>x\<close> being the count observed in the cell, and \<open>1\<close> where it is not. Where
  the grid is real and the formula of the model divides by no zero in any cell, this is
  a sum of real numbers.
\<close>

theorem binned_nll_sums_cells:
  assumes "wellformed (xbin g)" "wellformed (ybin g)" "wellformed (counts g)"
    and "shape (xbin g) = shape (ybin g)" "shape (counts g) = shape (xbin g)"
  shows "fst (binned_nll (Fin x_0) (Fin y_0) (Fin sigma_0) (Fin r_0) (Fin sigma_background) g)
      = Some (fsum (map (\<lambda>(a, b, c). cell_nll (profile a b (Fin x_0) (Fin y_0) (Fin sigma_0)
                                                  (Fin r_0) (Fin sigma_background)) c)
                     (zip (data (xbin g)) (zip (data (ybin g)) (data (counts g))))))
    \<and> (data (xbin g) = map Fin xs \<and> data (ybin g) = map Fin ys
        \<and> (\<forall>(a, b) \<in> set (zip xs ys). regular a b x_0 y_0 r_0) \<longrightarrow>
       fst (binned_nll (Fin x_0) (Fin y_0) (Fin sigma_0) (Fin r_0) (Fin sigma_background) g)
       = Some (Fin (sum_list
           (map (\<lambda>(a, b, c). cell_nll_real (hubble a b x_0 y_0 sigma_0 r_0 sigma_background) c)
              (zip xs (zip ys (data (counts g))))))))"
proof (intro conjI impI)
  show "fst (binned_nll (Fin x_0) (Fin y_0) (Fin sigma_0) (Fin r_0) (Fin sigma_background) g)
      = Some (fsum (map (\<lambda>(a, b, c). cell_nll (profile a b (Fin x_0) (Fin y_0) (Fin sigma_0)
                                                  (Fin r_0) (Fin sigma_background)) c)
                     (zip (data (xbin g)) (zip (data (ybin g)) (data (counts g))))))"
    by (rule binned_nll_cells [OF assms])
next
  assume h: "data (xbin g) = map Fin xs \<and> data (ybin g) = map Fin ys
        \<and> (\<forall>(a, b) \<in> set (zip xs ys). regular a b x_0 y_0 r_0)"
  then have d: "data (xbin g) = map Fin xs" "data (ybin g) = map Fin ys"
    and r: "\<forall>(a, b) \<in> set (zip xs ys). regular a b x_0 y_0 r_0"
    by blast+
  show "fst (binned_nll (Fin x_0) (Fin y_0) (Fin sigma_0) (Fin r_0) (Fin sigma_background) g)
       = Some (Fin (sum_list
           (map (\<lambda>(a, b, c). cell_nll_real (hubble a b x_0 y_0 sigma_0 r_0 sigma_background) c)
              (zip xs (zip ys (data (counts g)))))))"
    unfolding binned_nll_cells [OF assms] d cells_regular [OF r] fsum_Fin ..
qed

theorem binned_nll_sums_cells_witness:
  "wellformed \<lparr>shape = [1, 2], data = [Fin 0, Fin 3]\<rparr>
   \<and> wellformed \<lparr>shape = [1, 2], data = [Fin 0, Fin 4]\<rparr>
   \<and> wellformed \<lparr>shape = [1, 2], data = [3, 2 :: int]\<rparr>
   \<and> regular 0 0 0 0 10 \<and> regular 3 4 0 0 10
   \<and> fst (binned_nll (Fin 0) (Fin 0) (Fin 100) (Fin 10) (Fin (- 50))
     \<lparr>xbin = \<lparr>shape = [1, 2], data = [Fin 0, Fin 3]\<rparr>,
      ybin = \<lparr>shape = [1, 2], data = [Fin 0, Fin 4]\<rparr>,
      counts = \<lparr>shape = [1, 2], data = [3, 2]\<rparr>,
      xx = \<lparr>shape = [0], data = []\<rparr>, yy = \<lparr>shape = [0], data = []\<rparr>\<rparr>)
   = Some (Fin ((50 - 3 * ln 50) + 1))"
proof -
  let ?g = "\<lparr>xbin = \<lparr>shape = [1, 2], data = [Fin 0, Fin 3]\<rparr>,
      ybin = \<lparr>shape = [1, 2], data = [Fin 0, Fin 4]\<rparr>,
      counts = \<lparr>shape = [1, 2], data = [3, 2]\<rparr>,
      xx = \<lparr>shape = [0], data = []\<rparr>, yy = \<lparr>shape = [0], data = []\<rparr>\<rparr>"
  have wf: "wellformed (xbin ?g)" "wellformed (ybin ?g)" "wellformed (counts ?g)"
    by (simp_all add: wellformed_def)
  have sh: "shape (xbin ?g) = shape (ybin ?g)" "shape (counts ?g) = shape (xbin ?g)"
    by simp_all
  have reg: "regular 0 0 0 0 10" "regular 3 4 0 0 10"
    by (simp_all add: regular_def sqrt_25)
  have h: "hubble 0 0 0 0 100 10 (- 50) = 50" "hubble 3 4 0 0 100 10 (- 50) = - (50 / 9)"
    by (simp_all add: hubble_def sqrt_25 power2_eq_square)
  have "fst (binned_nll (Fin 0) (Fin 0) (Fin 100) (Fin 10) (Fin (- 50)) ?g)
       = Some (Fin (sum_list
           (map (\<lambda>(a, b, c). cell_nll_real (hubble a b 0 0 100 10 (- 50)) c)
              (zip [0, 3] (zip [0, 4] (data (counts ?g)))))))"
    by (rule binned_nll_sums_cells [OF wf sh, THEN conjunct2, rule_format])
      (simp add: reg)
  then have "fst (binned_nll (Fin 0) (Fin 0) (Fin 100) (Fin 10) (Fin (- 50)) ?g)
       = Some (Fin ((50 - 3 * ln 50) + 1))"
    by (simp add: h cell_nll_real_def)
  with wf reg show ?thesis by simp
qed

lemma unchanged_refl: "unchanged h h"
  by (simp add: unchanged_def)

lemma unchanged_append: "unchanged h (h @ ext)"
  by (simp add: unchanged_def)

lemma unchanged_trans: "unchanged h h' \<Longrightarrow> unchanged h' h'' \<Longrightarrow> unchanged h h''"
proof -
  assume a: "unchanged h h'" and b: "unchanged h' h''"
  from a obtain e1 where e1: "h' = h @ e1"
    unfolding unchanged_def by (metis append_take_drop_id)
  from b obtain e2 where e2: "h'' = h' @ e2"
    unfolding unchanged_def by (metis append_take_drop_id)
  show ?thesis by (simp add: e1 e2 unchanged_def)
qed

lemma deref_unchanged:
  assumes "unchanged h h'" "deref h a = Some v"
  shows "deref h' a = Some v"
proof -
  from assms(1) obtain e where e: "h' = h @ e"
    unfolding unchanged_def by (metis append_take_drop_id)
  from assms(2) show ?thesis
    by (auto simp: deref_def e nth_append split: if_splits)
qed

lemma fetch_unchanged:
  assumes "unchanged h h'" "fetch h a = Some v"
  shows "fetch h' a = Some v"
proof (cases a)
  case (At r)
  with assms(2) obtain w where "deref h r = Some w" "to_float w = v" by auto
  with deref_unchanged [OF assms(1)] At show ?thesis by simp
next
  case (Num c)
  with assms(2) show ?thesis by simp
qed

lemma alloc_result:
  assumes "alloc v h = (r, h')"
  shows "unchanged h h'" "deref h' r = Some v"
  using assms by (auto simp: alloc_def unchanged_def deref_def)

lemma binop_at_result:
  assumes "fetch h a = Some x" "fetch h b = Some y" "f x y = Some z"
  shows "\<exists>r h'. binop_at f a b h = Some (r, h') \<and> unchanged h h' \<and> fetch h' (At r) = Some z"
  using assms by (simp add: binop_at_def alloc_def unchanged_def deref_def)

lemma unop_at_result:
  assumes "fetch h a = Some x"
  shows "\<exists>r h'. unop_at f a h = Some (r, h') \<and> unchanged h h' \<and> fetch h' (At r) = Some (f x)"
  using assms by (simp add: unop_at_def alloc_def unchanged_def deref_def)

lemma greater_at_result:
  assumes "fetch h a = Some x" "fetch h b = Some y" "np_greater x y = Some z"
  shows "\<exists>r h'. greater_at a b h = Some (r, h') \<and> unchanged h h'
           \<and> deref h' r = Some (BoolArray z)"
  using assms by (simp add: greater_at_def alloc_def unchanged_def deref_def)

lemma negative_at_result:
  assumes "deref h a = Some (IntArray x)"
  shows "\<exists>r h'. negative_at a h = Some (r, h') \<and> unchanged h h'
           \<and> fetch h' (At r) = Some (as_float (np_negative x))"
  using assms by (simp add: negative_at_def alloc_def unchanged_def deref_def)

lemma where_at_result:
  assumes "deref h c = Some (BoolArray t)" "fetch h a = Some x" "fetch h b = Some y"
    "np_where t x y = Some z"
  shows "\<exists>r h'. where_at c a b h = Some (r, h') \<and> unchanged h h' \<and> fetch h' (At r) = Some z"
  using assms by (simp add: where_at_def alloc_def unchanged_def deref_def)


lemma binop_at_num_r:
  assumes "fetch h a = Some x" "f x (scalar c) = Some z"
  shows "\<exists>r h'. binop_at f a (Num c) h = Some (r, h') \<and> unchanged h h' \<and> fetch h' (At r) = Some z"
  using assms by (simp add: binop_at_def alloc_def unchanged_def deref_def)

lemma binop_at_num_l:
  assumes "fetch h b = Some y" "f (scalar c) y = Some z"
  shows "\<exists>r h'. binop_at f (Num c) b h = Some (r, h') \<and> unchanged h h' \<and> fetch h' (At r) = Some z"
  using assms by (simp add: binop_at_def alloc_def unchanged_def deref_def)

lemma greater_at_num_r:
  assumes "fetch h a = Some x" "np_greater x (scalar c) = Some z"
  shows "\<exists>r h'. greater_at a (Num c) h = Some (r, h') \<and> unchanged h h'
           \<and> deref h' r = Some (BoolArray z)"
  using assms by (simp add: greater_at_def alloc_def unchanged_def deref_def)

lemma where_at_num_r:
  assumes "deref h c = Some (BoolArray t)" "fetch h a = Some x" "np_where t x (scalar v) = Some z"
  shows "\<exists>r h'. where_at c a (Num v) h = Some (r, h') \<and> unchanged h h' \<and> fetch h' (At r) = Some z"
  using assms by (simp add: where_at_def alloc_def unchanged_def deref_def)

lemma model_at_refines:
  assumes fx: "fetch h x = Some X" and fy: "fetch h y = Some Y"
    and m: "model X Y (scalar x_0) (scalar y_0) (scalar sigma_0) (scalar r_0)
              (scalar sigma_background) = Some M"
  shows "\<exists>r h'. model_at x y x_0 y_0 sigma_0 r_0 sigma_background h = Some (r, h')
           \<and> unchanged h h' \<and> fetch h' (At r) = Some M"
proof -
  from m obtain dx dy s q d v
    where dx: "np_subtract X (scalar x_0) = Some dx"
      and dy: "np_subtract Y (scalar y_0) = Some dy"
      and s: "np_add (np_pow2 dx) (np_pow2 dy) = Some s"
      and q: "np_divide (np_sqrt s) (scalar r_0) = Some q"
      and d: "np_add (scalar (Fin 1)) q = Some d"
      and v: "np_divide (scalar sigma_0) (np_pow2 d) = Some v"
      and r: "np_add (scalar sigma_background) v = Some M"
    by (auto simp: model_def bind_eq_Some_conv Let_def)
  from binop_at_num_r [where f = np_subtract, OF fx dx] obtain a1 h1
    where s1: "binop_at np_subtract x (Num x_0) h = Some (a1, h1)"
      and u1: "unchanged h h1" and f1: "fetch h1 (At a1) = Some dx"
    by blast
  from unop_at_result [OF f1, of np_pow2] obtain a2 h2
    where s2: "unop_at np_pow2 (At a1) h1 = Some (a2, h2)"
      and u2: "unchanged h1 h2" and f2: "fetch h2 (At a2) = Some (np_pow2 dx)"
    by blast
  have fy2: "fetch h2 y = Some Y"
    by (rule fetch_unchanged [OF unchanged_trans [OF u1 u2] fy])
  from binop_at_num_r [where f = np_subtract, OF fy2 dy] obtain a3 h3
    where s3: "binop_at np_subtract y (Num y_0) h2 = Some (a3, h3)"
      and u3: "unchanged h2 h3" and f3: "fetch h3 (At a3) = Some dy"
    by blast
  from unop_at_result [OF f3, of np_pow2] obtain a4 h4
    where s4: "unop_at np_pow2 (At a3) h3 = Some (a4, h4)"
      and u4: "unchanged h3 h4" and f4: "fetch h4 (At a4) = Some (np_pow2 dy)"
    by blast
  have f24: "fetch h4 (At a2) = Some (np_pow2 dx)"
    by (rule fetch_unchanged [OF unchanged_trans [OF u3 u4] f2])
  from binop_at_result [where f = np_add, OF f24 f4 s] obtain a5 h5
    where s5: "binop_at np_add (At a2) (At a4) h4 = Some (a5, h5)"
      and u5: "unchanged h4 h5" and f5: "fetch h5 (At a5) = Some s"
    by blast
  from unop_at_result [OF f5, of np_sqrt] obtain a6 h6
    where s6: "unop_at np_sqrt (At a5) h5 = Some (a6, h6)"
      and u6: "unchanged h5 h6" and f6: "fetch h6 (At a6) = Some (np_sqrt s)"
    by blast
  from binop_at_num_r [where f = np_divide, OF f6 q] obtain a7 h7
    where s7: "binop_at np_divide (At a6) (Num r_0) h6 = Some (a7, h7)"
      and u7: "unchanged h6 h7" and f7: "fetch h7 (At a7) = Some q"
    by blast
  from binop_at_num_l [where f = np_add, OF f7 d] obtain a8 h8
    where s8: "binop_at np_add (Num (Fin 1)) (At a7) h7 = Some (a8, h8)"
      and u8: "unchanged h7 h8" and f8: "fetch h8 (At a8) = Some d"
    by blast
  from unop_at_result [OF f8, of np_pow2] obtain a9 h9
    where s9: "unop_at np_pow2 (At a8) h8 = Some (a9, h9)"
      and u9: "unchanged h8 h9" and f9: "fetch h9 (At a9) = Some (np_pow2 d)"
    by blast
  from binop_at_num_l [where f = np_divide, OF f9 v] obtain a10 h10
    where s10: "binop_at np_divide (Num sigma_0) (At a9) h9 = Some (a10, h10)"
      and u10: "unchanged h9 h10" and f10: "fetch h10 (At a10) = Some v"
    by blast
  from binop_at_num_l [where f = np_add, OF f10 r] obtain a11 h11
    where s11: "binop_at np_add (Num sigma_background) (At a10) h10 = Some (a11, h11)"
      and u11: "unchanged h10 h11" and f11: "fetch h11 (At a11) = Some M"
    by blast
  have run: "model_at x y x_0 y_0 sigma_0 r_0 sigma_background h = Some (a11, h11)"
    by (simp add: model_at_def s1 s2 s3 s4 s5 s6 s7 s8 s9 s10 s11)
  note c1 = u1
  note c2 = unchanged_trans [OF c1 u2]
  note c3 = unchanged_trans [OF c2 u3]
  note c4 = unchanged_trans [OF c3 u4]
  note c5 = unchanged_trans [OF c4 u5]
  note c6 = unchanged_trans [OF c5 u6]
  note c7 = unchanged_trans [OF c6 u7]
  note c8 = unchanged_trans [OF c7 u8]
  note c9 = unchanged_trans [OF c8 u9]
  note c10 = unchanged_trans [OF c9 u10]
  note c11 = unchanged_trans [OF c10 u11]
  have "unchanged h h11" by (rule c11)
  with run f11 show ?thesis by blast
qed

lemma fetch_float: "deref h a = Some (FloatArray x) \<Longrightarrow> fetch h (At a) = Some x"
  by simp

lemma binned_nll_at_refines:
  assumes gx: "deref h (xbin_at ns) = Some (FloatArray X)"
    and gy: "deref h (ybin_at ns) = Some (FloatArray Y)"
    and gc: "deref h (counts_at ns) = Some (IntArray C)"
    and val: "fst (binned_nll x_0 y_0 sigma_0 r_0 sigma_background
                \<lparr>xbin = X, ybin = Y, counts = C, xx = U, yy = W\<rparr>) = Some result"
  shows "\<exists>h'. binned_nll_at ns x_0 y_0 sigma_0 r_0 sigma_background h = Some (result, h')
           \<and> unchanged h h'"
proof -
  from val obtain mu pos t e nll
    where mu: "model X Y (scalar x_0) (scalar y_0) (scalar sigma_0) (scalar r_0)
                 (scalar sigma_background) = Some mu"
      and pos: "np_greater mu (scalar (Fin 0)) = Some pos"
      and t: "np_multiply (as_float (np_negative C)) (np_log mu) = Some t"
      and e: "np_add t mu = Some e"
      and nll: "np_where pos e (scalar (Fin 1)) = Some nll"
      and result: "result = np_sum nll"
    by (auto simp: binned_nll_def bind_eq_Some_conv Let_def)
  from model_at_refines [OF fetch_float [OF gx] fetch_float [OF gy] mu] obtain a1 h1
    where s1: "model_at (At (xbin_at ns)) (At (ybin_at ns)) x_0 y_0 sigma_0 r_0 sigma_background h
                 = Some (a1, h1)"
      and u1: "unchanged h h1" and f1: "fetch h1 (At a1) = Some mu"
    by blast
  from greater_at_num_r [OF f1 pos] obtain a2 h2
    where s2: "greater_at (At a1) (Num (Fin 0)) h1 = Some (a2, h2)"
      and u2: "unchanged h1 h2" and f2: "deref h2 a2 = Some (BoolArray pos)"
    by blast
  have gc2: "deref h2 (counts_at ns) = Some (IntArray C)"
    by (rule deref_unchanged [OF unchanged_trans [OF u1 u2] gc])
  from negative_at_result [OF gc2] obtain a3 h3
    where s3: "negative_at (counts_at ns) h2 = Some (a3, h3)"
      and u3: "unchanged h2 h3" and f3: "fetch h3 (At a3) = Some (as_float (np_negative C))"
    by blast
  have f13: "fetch h3 (At a1) = Some mu"
    by (rule fetch_unchanged [OF unchanged_trans [OF u2 u3] f1])
  from unop_at_result [OF f13, of np_log] obtain a4 h4
    where s4: "unop_at np_log (At a1) h3 = Some (a4, h4)"
      and u4: "unchanged h3 h4" and f4: "fetch h4 (At a4) = Some (np_log mu)"
    by blast
  have f34: "fetch h4 (At a3) = Some (as_float (np_negative C))"
    by (rule fetch_unchanged [OF u4 f3])
  from binop_at_result [where f = np_multiply, OF f34 f4 t] obtain a5 h5
    where s5: "binop_at np_multiply (At a3) (At a4) h4 = Some (a5, h5)"
      and u5: "unchanged h4 h5" and f5: "fetch h5 (At a5) = Some t"
    by blast
  have f15: "fetch h5 (At a1) = Some mu"
    by (rule fetch_unchanged [OF unchanged_trans [OF u4 u5] f13])
  from binop_at_result [where f = np_add, OF f5 f15 e] obtain a6 h6
    where s6: "binop_at np_add (At a5) (At a1) h5 = Some (a6, h6)"
      and u6: "unchanged h5 h6" and f6: "fetch h6 (At a6) = Some e"
    by blast
  have u26: "unchanged h2 h6"
    by (rule unchanged_trans [OF u3 unchanged_trans [OF u4 unchanged_trans [OF u5 u6]]])
  have f26: "deref h6 a2 = Some (BoolArray pos)"
    by (rule deref_unchanged [OF u26 f2])
  from where_at_num_r [OF f26 f6 nll] obtain a7 h7
    where s7: "where_at a2 (At a6) (Num (Fin 1)) h6 = Some (a7, h7)"
      and u7: "unchanged h6 h7" and f7: "fetch h7 (At a7) = Some nll"
    by blast
  have s8: "sum_at a7 h7 = Some result"
    by (simp only: sum_at_def f7 result option.map)
  have run: "binned_nll_at ns x_0 y_0 sigma_0 r_0 sigma_background h = Some (result, h7)"
    by (simp add: binned_nll_at_def s1 s2 s3 s4 s5 s6 s7 s8)
  have "unchanged h h7"
    by (rule unchanged_trans [OF u1 unchanged_trans [OF u2 unchanged_trans [OF u26 u7]]])
  with run show ?thesis by blast
qed


lemma iadd_at_overwrites:
  assumes "deref h a = Some (FloatArray x)" "fetch h b = Some y" "np_add x y = Some z"
  shows "\<exists>h'. iadd_at a b h = Some h' \<and> deref h' a = Some (FloatArray z)"
  using assms by (auto simp: iadd_at_def store_at_def deref_def split: if_splits)

lemma iadd_at_changes:
  "iadd_at 0 (Num (Fin 1)) [FloatArray (scalar (Fin 0))] = Some [FloatArray (scalar (Fin 1))]
   \<and> \<not> unchanged [FloatArray (scalar (Fin 0))] [FloatArray (scalar (Fin 1))]"
  using np_binop_same [of "scalar (Fin 0)" "scalar (Fin 1)" fadd]
  by (simp add: iadd_at_def store_at_def deref_def np_add_def wellformed_scalar unchanged_def)
    (simp add: scalar_def)

text \<open>
  C4. With the grid and the counts on the heap, every evaluation of \<open>binned_nll\<close>
  returns, allocates new arrays and changes no object the heap held before, the grid
  and the counts among them. The value it returns is the sum over the cells, which
  depends on the parameters, the grid and the counts only: an evaluation at given
  parameters returns the same value after any earlier evaluation as before it.
\<close>

theorem binned_nll_pure:
  assumes "deref h (xbin_at ns) = Some (FloatArray X)"
    and "deref h (ybin_at ns) = Some (FloatArray Y)"
    and "deref h (counts_at ns) = Some (IntArray C)"
    and "wellformed X" "wellformed Y" "wellformed C"
    and "shape X = shape Y" "shape C = shape X"
  shows "\<exists>v w h1 h2 h3.
      binned_nll_at ns x_0 y_0 sigma_0 r_0 sigma_background h = Some (v, h1)
    \<and> binned_nll_at ns a b c d e h1 = Some (w, h2)
    \<and> binned_nll_at ns x_0 y_0 sigma_0 r_0 sigma_background h2 = Some (v, h3)
    \<and> unchanged h h1 \<and> unchanged h h2 \<and> unchanged h h3
    \<and> deref h3 (xbin_at ns) = Some (FloatArray X)
    \<and> deref h3 (ybin_at ns) = Some (FloatArray Y)
    \<and> deref h3 (counts_at ns) = Some (IntArray C)
    \<and> v = fsum (map (\<lambda>(p, q, n). cell_nll (profile p q x_0 y_0 sigma_0 r_0 sigma_background) n)
                 (zip (data X) (zip (data Y) (data C))))"
proof -
  let ?g = "\<lparr>xbin = X, ybin = Y, counts = C, xx = X, yy = Y\<rparr>"
  let ?v = "fsum (map (\<lambda>(p, q, n). cell_nll (profile p q x_0 y_0 sigma_0 r_0 sigma_background) n)
                 (zip (data X) (zip (data Y) (data C))))"
  let ?w = "fsum (map (\<lambda>(p, q, n). cell_nll (profile p q a b c d e) n)
                 (zip (data X) (zip (data Y) (data C))))"
  have wf: "wellformed (xbin ?g)" "wellformed (ybin ?g)" "wellformed (counts ?g)"
    "shape (xbin ?g) = shape (ybin ?g)" "shape (counts ?g) = shape (xbin ?g)"
    using assms(4-8) by simp_all
  have pv: "fst (binned_nll x_0 y_0 sigma_0 r_0 sigma_background ?g) = Some ?v"
    using binned_nll_cells [OF wf] by simp
  have pw: "fst (binned_nll a b c d e ?g) = Some ?w"
    using binned_nll_cells [OF wf] by simp
  from binned_nll_at_refines [OF assms(1-3) pv] obtain h1
    where r1: "binned_nll_at ns x_0 y_0 sigma_0 r_0 sigma_background h = Some (?v, h1)"
      and u1: "unchanged h h1"
    by blast
  note g1 = deref_unchanged [OF u1 assms(1)] deref_unchanged [OF u1 assms(2)]
    deref_unchanged [OF u1 assms(3)]
  from binned_nll_at_refines [OF g1 pw] obtain h2
    where r2: "binned_nll_at ns a b c d e h1 = Some (?w, h2)" and u12: "unchanged h1 h2"
    by blast
  note u2 = unchanged_trans [OF u1 u12]
  note g2 = deref_unchanged [OF u2 assms(1)] deref_unchanged [OF u2 assms(2)]
    deref_unchanged [OF u2 assms(3)]
  from binned_nll_at_refines [OF g2 pv] obtain h3
    where r3: "binned_nll_at ns x_0 y_0 sigma_0 r_0 sigma_background h2 = Some (?v, h3)"
      and u23: "unchanged h2 h3"
    by blast
  note u3 = unchanged_trans [OF u2 u23]
  note g3 = deref_unchanged [OF u3 assms(1)] deref_unchanged [OF u3 assms(2)]
    deref_unchanged [OF u3 assms(3)]
  from r1 r2 r3 u1 u2 u3 g3 show ?thesis by blast
qed

theorem binned_nll_pure_witness:
  "deref [FloatArray \<lparr>shape = [1, 2], data = [Fin 0, Fin 3]\<rparr>,
          FloatArray \<lparr>shape = [1, 2], data = [Fin 0, Fin 4]\<rparr>,
          IntArray \<lparr>shape = [1, 2], data = [3, 2]\<rparr>] 2
     = Some (IntArray \<lparr>shape = [1, 2], data = [3, 2]\<rparr>)
   \<and> wellformed \<lparr>shape = [1, 2], data = [Fin 0, Fin 3]\<rparr>
   \<and> wellformed \<lparr>shape = [1, 2], data = [Fin 0, Fin 4]\<rparr>
   \<and> wellformed \<lparr>shape = [1, 2], data = [3, 2 :: int]\<rparr>
   \<and> (\<exists>w h1 h2 h3.
        binned_nll_at \<lparr>xbin_at = 0, ybin_at = 1, counts_at = 2, xx_at = 3, yy_at = 4\<rparr>
          (Fin 0) (Fin 0) (Fin 100) (Fin 10) (Fin (- 50))
          [FloatArray \<lparr>shape = [1, 2], data = [Fin 0, Fin 3]\<rparr>,
           FloatArray \<lparr>shape = [1, 2], data = [Fin 0, Fin 4]\<rparr>,
           IntArray \<lparr>shape = [1, 2], data = [3, 2]\<rparr>]
        = Some (Fin ((50 - 3 * ln 50) + 1), h1)
      \<and> binned_nll_at \<lparr>xbin_at = 0, ybin_at = 1, counts_at = 2, xx_at = 3, yy_at = 4\<rparr>
          (Fin 1) (Fin 1) (Fin 1) (Fin 1) (Fin 1) h1 = Some (w, h2)
      \<and> binned_nll_at \<lparr>xbin_at = 0, ybin_at = 1, counts_at = 2, xx_at = 3, yy_at = 4\<rparr>
          (Fin 0) (Fin 0) (Fin 100) (Fin 10) (Fin (- 50)) h2
        = Some (Fin ((50 - 3 * ln 50) + 1), h3)
      \<and> deref h3 2 = Some (IntArray \<lparr>shape = [1, 2], data = [3, 2]\<rparr>))"
proof -
  let ?X = "\<lparr>shape = [1, 2], data = [Fin 0, Fin 3]\<rparr>"
  let ?Y = "\<lparr>shape = [1, 2], data = [Fin 0, Fin 4]\<rparr>"
  let ?C = "\<lparr>shape = [1, 2], data = [3, 2 :: int]\<rparr>"
  let ?h = "[FloatArray ?X, FloatArray ?Y, IntArray ?C]"
  let ?ns = "\<lparr>xbin_at = 0, ybin_at = 1, counts_at = 2, xx_at = 3, yy_at = 4\<rparr>"
  have d: "deref ?h (xbin_at ?ns) = Some (FloatArray ?X)"
    "deref ?h (ybin_at ?ns) = Some (FloatArray ?Y)"
    "deref ?h (counts_at ?ns) = Some (IntArray ?C)"
    by (simp_all add: deref_def)
  have wf: "wellformed ?X" "wellformed ?Y" "wellformed ?C"
    by (simp_all add: wellformed_def)
  have sh: "shape ?X = shape ?Y" "shape ?C = shape ?X" by simp_all
  have reg: "regular 0 0 0 0 10" "regular 3 4 0 0 10"
    by (simp_all add: regular_def sqrt_25)
  have p: "profile (Fin 0) (Fin 0) (Fin 0) (Fin 0) (Fin 100) (Fin 10) (Fin (- 50)) = Fin 50"
    "profile (Fin 3) (Fin 4) (Fin 0) (Fin 0) (Fin 100) (Fin 10) (Fin (- 50)) = Fin (- (50 / 9))"
    by (simp_all add: profile_regular reg hubble_def sqrt_25 power2_eq_square)
  have v: "fsum (map (\<lambda>(p, q, n). cell_nll (profile p q (Fin 0) (Fin 0) (Fin 100) (Fin 10) (Fin (- 50))) n)
                 (zip (data ?X) (zip (data ?Y) (data ?C))))
      = Fin ((50 - 3 * ln 50) + 1)"
    by (simp add: p cell_nll_Fin cell_nll_real_def fsum_def)
  from binned_nll_pure [OF d wf sh, of "Fin 0" "Fin 0" "Fin 100" "Fin 10" "Fin (- 50)"
      "Fin 1" "Fin 1" "Fin 1" "Fin 1" "Fin 1"]
  obtain w h1 h2 h3
    where "binned_nll_at ?ns (Fin 0) (Fin 0) (Fin 100) (Fin 10) (Fin (- 50)) ?h
        = Some (Fin ((50 - 3 * ln 50) + 1), h1)"
      and "binned_nll_at ?ns (Fin 1) (Fin 1) (Fin 1) (Fin 1) (Fin 1) h1 = Some (w, h2)"
      and "binned_nll_at ?ns (Fin 0) (Fin 0) (Fin 100) (Fin 10) (Fin (- 50)) h2
        = Some (Fin ((50 - 3 * ln 50) + 1), h3)"
      and "deref h3 (counts_at ?ns) = Some (IntArray ?C)"
    unfolding v by blast
  with d(3) wf show ?thesis by auto
qed

text \<open>
  C10. The value of \<open>binned_nll\<close> depends on the module-level variables through
  \<open>xbin\<close>, \<open>ybin\<close> and \<open>counts\<close> only: two states that agree on these give the same
  value, whatever unbinned positions \<open>xx\<close> and \<open>yy\<close> they hold.
\<close>

theorem binned_nll_reads_binned_data_only:
  assumes "xbin g' = xbin g" "ybin g' = ybin g" "counts g' = counts g"
  shows "fst (binned_nll x_0 y_0 sigma_0 r_0 sigma_background g')
       = fst (binned_nll x_0 y_0 sigma_0 r_0 sigma_background g)"
  using assms by (simp add: binned_nll_def)

theorem binned_nll_reads_binned_data_only_witness:
  "xbin \<lparr>xbin = scalar (Fin 0), ybin = scalar (Fin 0), counts = scalar 2,
       xx = \<lparr>shape = [2], data = [Fin (1 / 4), Fin (- (1 / 4))]\<rparr>,
       yy = \<lparr>shape = [2], data = [Fin (1 / 8), Fin (1 / 2)]\<rparr>\<rparr>
   = xbin \<lparr>xbin = scalar (Fin 0), ybin = scalar (Fin 0), counts = scalar 2,
       xx = \<lparr>shape = [2], data = [Fin 0, Fin (1 / 3)]\<rparr>,
       yy = \<lparr>shape = [2], data = [Fin (- (1 / 2)), Fin 0]\<rparr>\<rparr>
   \<and> xx \<lparr>xbin = scalar (Fin 0), ybin = scalar (Fin 0), counts = scalar 2,
       xx = \<lparr>shape = [2], data = [Fin (1 / 4), Fin (- (1 / 4))]\<rparr>,
       yy = \<lparr>shape = [2], data = [Fin (1 / 8), Fin (1 / 2)]\<rparr>\<rparr>
   \<noteq> xx \<lparr>xbin = scalar (Fin 0), ybin = scalar (Fin 0), counts = scalar 2,
       xx = \<lparr>shape = [2], data = [Fin 0, Fin (1 / 3)]\<rparr>,
       yy = \<lparr>shape = [2], data = [Fin (- (1 / 2)), Fin 0]\<rparr>\<rparr>
   \<and> fst (binned_nll (Fin 0) (Fin 0) (Fin 100) (Fin 10) (Fin 10)
      \<lparr>xbin = scalar (Fin 0), ybin = scalar (Fin 0), counts = scalar 2,
       xx = \<lparr>shape = [2], data = [Fin (1 / 4), Fin (- (1 / 4))]\<rparr>,
       yy = \<lparr>shape = [2], data = [Fin (1 / 8), Fin (1 / 2)]\<rparr>\<rparr>)
   = fst (binned_nll (Fin 0) (Fin 0) (Fin 100) (Fin 10) (Fin 10)
      \<lparr>xbin = scalar (Fin 0), ybin = scalar (Fin 0), counts = scalar 2,
       xx = \<lparr>shape = [2], data = [Fin 0, Fin (1 / 3)]\<rparr>,
       yy = \<lparr>shape = [2], data = [Fin (- (1 / 2)), Fin 0]\<rparr>\<rparr>)"
proof -
  have "fst (binned_nll (Fin 0) (Fin 0) (Fin 100) (Fin 10) (Fin 10)
      \<lparr>xbin = scalar (Fin 0), ybin = scalar (Fin 0), counts = scalar 2,
       xx = \<lparr>shape = [2], data = [Fin (1 / 4), Fin (- (1 / 4))]\<rparr>,
       yy = \<lparr>shape = [2], data = [Fin (1 / 8), Fin (1 / 2)]\<rparr>\<rparr>)
   = fst (binned_nll (Fin 0) (Fin 0) (Fin 100) (Fin 10) (Fin 10)
      \<lparr>xbin = scalar (Fin 0), ybin = scalar (Fin 0), counts = scalar 2,
       xx = \<lparr>shape = [2], data = [Fin 0, Fin (1 / 3)]\<rparr>,
       yy = \<lparr>shape = [2], data = [Fin (- (1 / 2)), Fin 0]\<rparr>\<rparr>)"
    by (rule binned_nll_reads_binned_data_only) simp_all
  then show ?thesis by simp
qed

subsection \<open>The synthetic data generator\<close>

lemma map2_index:
  "length d = length cs \<Longrightarrow> map2 f d cs = map (\<lambda>i. f (d ! i) (cs ! i)) [0..<length cs]"
  by (intro nth_equalityI) simp_all

lemma sample_cells_index:
  "sample_cells cs = concat (map (\<lambda>i. replicate (nat (cs ! i)) i) [0..<length cs])"
proof -
  have "map2 (\<lambda>k c. replicate (nat c) k) [0..<length cs] cs
      = map (\<lambda>i. replicate (nat (cs ! i)) i) [0..<length cs]"
    by (intro nth_equalityI) simp_all
  then show ?thesis by (simp add: sample_cells_def)
qed

lemma repeat_by_cells:
  assumes "length d = length cs"
  shows "concat (map2 (\<lambda>v c. replicate (nat c) v) d cs) = map ((!) d) (sample_cells cs)"
proof -
  have "concat (map2 (\<lambda>v c. replicate (nat c) v) d cs)
      = concat (map (\<lambda>i. replicate (nat (cs ! i)) (d ! i)) [0..<length cs])"
    using assms by (simp add: map2_index)
  then show ?thesis by (simp add: sample_cells_index map_concat comp_def)
qed

lemma sum_list_nat:
  "\<forall>c \<in> set cs. 0 \<le> c \<Longrightarrow> int (sum_list (map nat cs)) = sum_list cs"
  by (induction cs) simp_all

lemma length_sample_cells:
  assumes "\<forall>c \<in> set cs. 0 \<le> c"
  shows "int (length (sample_cells cs)) = sum_list cs"
proof -
  have "map (\<lambda>i. nat (cs ! i)) [0..<length cs] = map nat cs"
    by (intro nth_equalityI) simp_all
  then have "length (sample_cells cs) = sum_list (map nat cs)"
    by (simp add: sample_cells_index length_concat comp_def)
  then show ?thesis using sum_list_nat [OF assms] by simp
qed

lemma count_list_replicate: "count_list (replicate m x) k = (if x = k then m else 0)"
  by (induction m) auto

lemma count_list_concat_upt:
  "count_list (concat (map (\<lambda>i. replicate (f i) i) [0..<n])) k = (if k < n then f k else 0)"
  by (induction n) (auto simp: count_list_replicate)

lemma count_sample_cells:
  assumes "k < length cs" "0 \<le> cs ! k"
  shows "int (count_list (sample_cells cs) k) = cs ! k"
  using assms by (simp add: sample_cells_index count_list_concat_upt)


lemma profile_valid_lam:
  assumes "is_finite a" "is_finite b"
  shows "valid_lam (profile a b (Fin 0) (Fin 0) (Fin 100) (Fin 10) (Fin 10))"
proof -
  from assms obtain x y where "a = Fin x" "b = Fin y"
    by (cases a; cases b) simp_all
  then show ?thesis
    by (simp add: profile_regular regular_pos hubble_nonneg)
qed

lemma list_all_map2:
  assumes "list_all A xs" "list_all B ys" "\<And>a b. A a \<Longrightarrow> B b \<Longrightarrow> P (f a b)"
  shows "list_all P (map2 f xs ys)"
proof -
  have "P v" if "v \<in> set (map2 f xs ys)" for v
  proof -
    from that obtain a b where ab: "(a, b) \<in> set (zip xs ys)" and v: "v = f a b"
      by auto
    from ab have "a \<in> set xs" "b \<in> set ys"
      by (auto dest: set_zip_leftD set_zip_rightD)
    with assms(1,2) have "A a" "B b" by (simp_all add: list_all_iff)
    with v show ?thesis by (simp add: assms(3))
  qed
  then show ?thesis by (simp add: list_all_iff)
qed

lemma fake_data_value:
  fixes gen :: rng
  assumes "wellformed xb" "wellformed yb" "shape xb = shape yb"
    and "list_all is_finite (data xb)" "list_all is_finite (data yb)"
  defines "cs \<equiv> map (\<lambda>i. int (poisson_stream gen i)) [0..<length (data xb)]"
  defines "m \<equiv> length (sample_cells cs)"
  shows "\<exists>gen'. fake_data xb yb gen =
    Some (\<lparr>xbin = xb, ybin = yb, counts = \<lparr>shape = shape xb, data = cs\<rparr>,
           xx = \<lparr>shape = [m],
                 data = map (\<lambda>i. fadd (data xb ! (sample_cells cs ! i))
                                  (Fin (sample_stream gen i - 1 / 2))) [0..<m]\<rparr>,
           yy = \<lparr>shape = [m],
                 data = map (\<lambda>i. fadd (data yb ! (sample_cells cs ! i))
                                  (Fin (sample_stream gen (i + m) - 1 / 2))) [0..<m]\<rparr>\<rparr>,
          gen')"
proof -
  have len: "length (data xb) = prod_list (shape xb)" "length (data yb) = prod_list (shape xb)"
    using assms(1-3) by (simp_all add: wellformed_def)
  have lcs: "length cs = prod_list (shape xb)" by (simp add: cs_def len)
  define lam where "lam = \<lparr>shape = shape xb,
      data = map2 (\<lambda>a b. profile a b (Fin 0) (Fin 0) (Fin 100) (Fin 10) (Fin 10))
               (data xb) (data yb)\<rparr>"
  define cnt where "cnt = \<lparr>shape = shape xb, data = cs\<rparr>"
  define gen1 where
    "gen1 = gen\<lparr>poisson_stream := \<lambda>i. poisson_stream gen (i + length (data lam))\<rparr>"
  define xx0 where "xx0 = \<lparr>shape = [m], data = map ((!) (data xb)) (sample_cells cs)\<rparr>"
  define yy0 where "yy0 = \<lparr>shape = [m], data = map ((!) (data yb)) (sample_cells cs)\<rparr>"
  define jx where
    "jx = \<lparr>shape = [m], data = map (\<lambda>i. Fin (sample_stream gen i - 1 / 2)) [0..<m]\<rparr>"
  define gen2 where "gen2 = gen1\<lparr>sample_stream := \<lambda>i. sample_stream gen1 (i + m)\<rparr>"
  define jy where
    "jy = \<lparr>shape = [m], data = map (\<lambda>i. Fin (sample_stream gen (i + m) - 1 / 2)) [0..<m]\<rparr>"
  define gen3 where "gen3 = gen2\<lparr>sample_stream := \<lambda>i. sample_stream gen2 (i + m)\<rparr>"
  define xx1 where "xx1 = \<lparr>shape = [m],
      data = map (\<lambda>i. fadd (data xb ! (sample_cells cs ! i))
                       (Fin (sample_stream gen i - 1 / 2))) [0..<m]\<rparr>"
  define yy1 where "yy1 = \<lparr>shape = [m],
      data = map (\<lambda>i. fadd (data yb ! (sample_cells cs ! i))
                       (Fin (sample_stream gen (i + m) - 1 / 2))) [0..<m]\<rparr>"
  have s1: "model xb yb (scalar (Fin 0)) (scalar (Fin 0)) (scalar (Fin 100)) (scalar (Fin 10))
      (scalar (Fin 10)) = Some lam"
    unfolding lam_def by (rule model_elementwise [OF assms(1-3)])
  have valid: "list_all valid_lam (data lam)"
    unfolding lam_def using assms(4,5) by (simp add: list_all_map2 profile_valid_lam)
  have llam: "length (data lam) = length (data xb)" "shape lam = shape xb"
    by (simp_all add: lam_def len)
  have s2: "random_poisson lam gen = Some (cnt, gen1)"
    using valid by (simp add: random_poisson_def cnt_def gen1_def cs_def llam Let_def)
  have nonneg: "\<not> list_ex (\<lambda>c. c < 0) cs"
    by (simp add: list_ex_iff cs_def)
  have s3: "np_repeat xb (np_flatten cnt) = Some xx0"
    using nonneg lcs len
    by (simp add: np_repeat_def np_flatten_def cnt_def xx0_def m_def repeat_by_cells)
  have s4: "np_repeat yb (np_flatten cnt) = Some yy0"
    using nonneg lcs len
    by (simp add: np_repeat_def np_flatten_def cnt_def yy0_def m_def repeat_by_cells)
  have s5: "random_uniform (- 0.5) 0.5 (np_size xx0) gen1 = (jx, gen2)"
    by (simp add: random_uniform_def np_size_def xx0_def jx_def gen2_def gen1_def)
  have s6: "np_add xx0 jx = Some xx1"
    unfolding np_add_def xx0_def jx_def xx1_def
    by (subst np_binop_same) (simp_all add: wellformed_lit m_def, intro nth_equalityI, simp_all)
  have s7: "random_uniform (- 0.5) 0.5 (np_size yy0) gen2 = (jy, gen3)"
    by (simp add: random_uniform_def np_size_def yy0_def jy_def gen3_def gen2_def gen1_def)
  have s8: "np_add yy0 jy = Some yy1"
    unfolding np_add_def yy0_def jy_def yy1_def
    by (subst np_binop_same) (simp_all add: wellformed_lit m_def, intro nth_equalityI, simp_all)
  have "fake_data xb yb gen = Some (\<lparr>xbin = xb, ybin = yb, counts = cnt, xx = xx1, yy = yy1\<rparr>, gen3)"
    by (simp only: fake_data_def true_pars_def prod.case s1 s2 s3 s4 s5 s6 s7 s8
        Option.bind.bind_lunit Let_def)
  then show ?thesis unfolding cnt_def xx1_def yy1_def by (intro exI)
qed

lemma sample_cells_first:
  assumes "cs \<noteq> []" "0 < cs ! 0"
  shows "sample_cells cs ! 0 = 0"
proof -
  from assms(1) obtain n where n: "length cs = Suc n" by (cases cs) simp_all
  have "0 < nat (cs ! 0)" using assms(2) by simp
  then show ?thesis
    by (simp add: sample_cells_index n upt_conv_Cons nth_append del: upt_Suc)
qed

lemma grid_value:
  "\<exists>xb yb. grid = Some (xb, yb) \<and> shape xb = [320, 400] \<and> shape yb = [320, 400]
     \<and> wellformed xb \<and> wellformed yb
     \<and> list_all is_finite (data xb) \<and> list_all is_finite (data yb)
     \<and> data xb ! 0 = Fin (- 100) \<and> data yb ! 0 = Fin (- 80)"
proof -
  have nx: "nat \<lceil>(x_max - x_min) / binsize\<rceil> = 400" and ny: "nat \<lceil>(y_max - y_min) / binsize\<rceil> = 320"
    by (simp_all add: x_min_def x_max_def y_min_def y_max_def binsize_def)
  have step: "binsize \<noteq> 0" by (simp add: binsize_def)
  define xs where "xs = map (\<lambda>i. Fin (x_min + real i * binsize)) [0..<400]"
  define ys where "ys = map (\<lambda>i. Fin (y_min + real i * binsize)) [0..<320]"
  have lens: "length xs = 400" "length ys = 320" by (simp_all add: xs_def ys_def)
  have g: "grid = Some (meshgrid xs ys)"
    using step by (simp add: grid_def arange_def nx ny xs_def ys_def)
  have fin: "list_all is_finite xs" "list_all is_finite ys"
    by (simp_all add: xs_def ys_def list_all_iff)
  have x0: "xs ! 0 = Fin (- 100)" and y0: "ys ! 0 = Fin (- 80)"
    by (simp_all add: xs_def ys_def x_min_def y_min_def)
  have ys_cons: "ys = ys ! 0 # tl ys" using lens(2) by (cases ys) simp_all
  have first_x: "concat (replicate (length ys) xs) ! 0 = xs ! 0"
  proof -
    obtain k where "length ys = Suc k" using lens(2) by (cases "length ys") simp_all
    then show ?thesis using lens(1) by (simp add: nth_append)
  qed
  have first_y: "concat (map (replicate (length xs)) ys) ! 0 = ys ! 0"
    by (subst ys_cons) (simp add: lens nth_append)
  have wf: "length (concat (replicate (length ys) xs)) = length ys * length xs"
    "length (concat (map (replicate (length xs)) ys)) = length ys * length xs"
    by (simp_all add: length_concat comp_def sum_list_triv sum_list_replicate)
  have fx: "list_all is_finite (concat (replicate (length ys) xs))"
    using fin(1) by (auto simp: list_all_iff)
  have fy: "list_all is_finite (concat (map (replicate (length xs)) ys))"
    using fin(2) by (auto simp: list_all_iff)
  show ?thesis
    unfolding g meshgrid_def
    using wf fx fy first_x first_y
    by (simp add: wellformed_def lens x0 y0)
qed

text \<open>
  C9. On a grid of real coordinates, \<open>fake_data\<close> returns, and the unbinned points it
  leaves in \<open>xx\<close> and \<open>yy\<close> are as many as the sum of all entries of \<open>counts\<close>.
  Cell \<open>k\<close> of the flattened grid is the origin of exactly \<open>counts[k]\<close> of them
  (\<open>sample_cells\<close> lists the origin of every sample), and every sample is the
  coordinates of its origin plus the jitter drawn for it.
\<close>

theorem fake_data_expands_counts:
  fixes gen :: rng
  assumes "wellformed xb" "wellformed yb" "shape xb = shape yb"
    and "list_all is_finite (data xb)" "list_all is_finite (data yb)"
  shows "\<exists>g gen'. fake_data xb yb gen = Some (g, gen')
    \<and> shape (counts g) = shape xb
    \<and> data (counts g) = map (\<lambda>k. int (poisson_stream gen k)) [0..<length (data xb)]
    \<and> int (length (data (xx g))) = sum_list (data (counts g))
    \<and> int (length (data (yy g))) = sum_list (data (counts g))
    \<and> length (sample_cells (data (counts g))) = length (data (xx g))
    \<and> (\<forall>k < length (data xb).
          int (count_list (sample_cells (data (counts g))) k) = data (counts g) ! k)
    \<and> (\<forall>i < length (data (xx g)).
          data (xx g) ! i = fadd (data xb ! (sample_cells (data (counts g)) ! i))
                              (Fin (sample_stream gen i - 1 / 2))
        \<and> data (yy g) ! i = fadd (data yb ! (sample_cells (data (counts g)) ! i))
                              (Fin (sample_stream gen (i + length (data (xx g))) - 1 / 2)))"
proof -
  define cs where "cs = map (\<lambda>k. int (poisson_stream gen k)) [0..<length (data xb)]"
  define m where "m = length (sample_cells cs)"
  define g where "g = \<lparr>xbin = xb, ybin = yb, counts = \<lparr>shape = shape xb, data = cs\<rparr>,
           xx = \<lparr>shape = [m],
                 data = map (\<lambda>i. fadd (data xb ! (sample_cells cs ! i))
                                  (Fin (sample_stream gen i - 1 / 2))) [0..<m]\<rparr>,
           yy = \<lparr>shape = [m],
                 data = map (\<lambda>i. fadd (data yb ! (sample_cells cs ! i))
                                  (Fin (sample_stream gen (i + m) - 1 / 2))) [0..<m]\<rparr>\<rparr>"
  from fake_data_value [OF assms, of gen] obtain gen'
    where run: "fake_data xb yb gen = Some (g, gen')"
    unfolding g_def m_def cs_def by blast
  have nonneg: "\<forall>c \<in> set cs. 0 \<le> c" by (auto simp: cs_def)
  have total: "int m = sum_list cs"
    unfolding m_def by (rule length_sample_cells [OF nonneg])
  have per_cell: "int (count_list (sample_cells cs) k) = cs ! k" if "k < length (data xb)" for k
    using that by (intro count_sample_cells) (simp_all add: cs_def)
  have sel: "counts g = \<lparr>shape = shape xb, data = cs\<rparr>" "length (data (xx g)) = m"
    "length (data (yy g)) = m"
    by (simp_all add: g_def)
  show ?thesis
  proof (intro exI conjI allI impI)
    show "fake_data xb yb gen = Some (g, gen')" by (rule run)
    show "shape (counts g) = shape xb" by (simp add: sel)
    show "data (counts g) = map (\<lambda>k. int (poisson_stream gen k)) [0..<length (data xb)]"
      by (simp add: sel cs_def)
    show "int (length (data (xx g))) = sum_list (data (counts g))" by (simp add: sel total)
    show "int (length (data (yy g))) = sum_list (data (counts g))" by (simp add: sel total)
    show "length (sample_cells (data (counts g))) = length (data (xx g))"
      by (simp add: sel m_def)
    show "int (count_list (sample_cells (data (counts g))) k) = data (counts g) ! k"
      if "k < length (data xb)" for k
      using per_cell [OF that] by (simp add: sel)
    show "data (xx g) ! i = fadd (data xb ! (sample_cells (data (counts g)) ! i))
                              (Fin (sample_stream gen i - 1 / 2))"
      if "i < length (data (xx g))" for i
      using that by (simp add: g_def)
    show "data (yy g) ! i = fadd (data yb ! (sample_cells (data (counts g)) ! i))
                              (Fin (sample_stream gen (i + length (data (xx g))) - 1 / 2))"
      if "i < length (data (xx g))" for i
      using that by (simp add: g_def)
  qed
qed

theorem fake_data_expands_counts_witness:
  "wellformed \<lparr>shape = [1, 2], data = [Fin 0, Fin 3]\<rparr>
   \<and> wellformed \<lparr>shape = [1, 2], data = [Fin 0, Fin 4]\<rparr>
   \<and> list_all is_finite [Fin 0, Fin 3] \<and> list_all is_finite [Fin 0, Fin 4]
   \<and> (\<exists>g gen'.
        fake_data \<lparr>shape = [1, 2], data = [Fin 0, Fin 3]\<rparr> \<lparr>shape = [1, 2], data = [Fin 0, Fin 4]\<rparr>
          \<lparr>poisson_stream = \<lambda>k. k + 1, sample_stream = \<lambda>i. 1 / 2\<rparr> = Some (g, gen')
      \<and> data (counts g) = [1, 2]
      \<and> length (data (xx g)) = 3
      \<and> length (data (yy g)) = 3
      \<and> data (xx g) ! 2 = Fin 3
      \<and> data (yy g) ! 2 = Fin 4)"
proof -
  let ?xb = "\<lparr>shape = [1, 2], data = [Fin 0, Fin 3]\<rparr>"
  let ?yb = "\<lparr>shape = [1, 2], data = [Fin 0, Fin 4]\<rparr>"
  let ?gen = "\<lparr>poisson_stream = \<lambda>k. k + 1, sample_stream = \<lambda>i. 1 / 2\<rparr>"
  have wf: "wellformed ?xb" "wellformed ?yb" by (simp_all add: wellformed_def)
  have sh: "shape ?xb = shape ?yb" by simp
  have fin: "list_all is_finite (data ?xb)" "list_all is_finite (data ?yb)" by simp_all
  have cells: "sample_cells [1, 2] = [0, 1, 1]"
    by (simp add: sample_cells_def upt_rec numeral_eq_Suc)
  from fake_data_expands_counts [OF wf sh fin, of ?gen] obtain g gen'
    where run: "fake_data ?xb ?yb ?gen = Some (g, gen')"
      and dc: "data (counts g) = map (\<lambda>k. int (poisson_stream ?gen k)) [0..<length (data ?xb)]"
      and lx: "int (length (data (xx g))) = sum_list (data (counts g))"
      and ly: "int (length (data (yy g))) = sum_list (data (counts g))"
      and pts: "\<forall>i < length (data (xx g)).
          data (xx g) ! i = fadd (data ?xb ! (sample_cells (data (counts g)) ! i))
                              (Fin (sample_stream ?gen i - 1 / 2))
        \<and> data (yy g) ! i = fadd (data ?yb ! (sample_cells (data (counts g)) ! i))
                              (Fin (sample_stream ?gen (i + length (data (xx g))) - 1 / 2))"
    by blast
  have c: "data (counts g) = [1, 2]"
    using dc by (simp add: upt_rec)
  have l: "length (data (xx g)) = 3" "length (data (yy g)) = 3"
    using lx ly by (simp_all add: c)
  have p: "data (xx g) ! 2 = Fin 3" "data (yy g) ! 2 = Fin 4"
    using pts [rule_format, of 2] by (simp_all add: l c cells)
  from wf run c l p show ?thesis by auto
qed

text \<open>
  C3. The jitter the cell adds to a sample is \<open>u - 1/2\<close> for a sample \<open>u\<close> of
  \<open>[0, 1)\<close>, whatever the bin size, and not at most half the bin size as the claim has
  it. On the grid of the notebook with its bin size 0.5, when the generator draws one
  count in every cell and the sample \<open>u = 0.9\<close>, the first unbinned point comes from
  cell 0 at \<open>(-100, -80)\<close> and lies at \<open>(-99.6, -79.6)\<close>: the offset 0.4 in each axis
  is more than half the bin size, 0.25.
\<close>

theorem jitter_exceeds_half_bin:
  "\<exists>xb yb g gen'. grid = Some (xb, yb)
     \<and> fake_data xb yb \<lparr>poisson_stream = \<lambda>k. 1, sample_stream = \<lambda>i. 9 / 10\<rparr> = Some (g, gen')
     \<and> sample_cells (data (counts g)) ! 0 = 0
     \<and> data xb ! 0 = Fin (- 100) \<and> data (xx g) ! 0 = Fin (- 100 + 2 / 5)
     \<and> data yb ! 0 = Fin (- 80) \<and> data (yy g) ! 0 = Fin (- 80 + 2 / 5)
     \<and> binsize / 2 < 2 / 5"
proof -
  let ?gen = "\<lparr>poisson_stream = \<lambda>k. 1, sample_stream = \<lambda>i. 9 / 10\<rparr>"
  from grid_value obtain xb yb
    where g: "grid = Some (xb, yb)" and sh: "shape xb = [320, 400]" "shape yb = [320, 400]"
      and wf: "wellformed xb" "wellformed yb"
      and fin: "list_all is_finite (data xb)" "list_all is_finite (data yb)"
      and first: "data xb ! 0 = Fin (- 100)" "data yb ! 0 = Fin (- 80)"
    by blast
  have n: "length (data xb) = 128000" using wf(1) sh(1) by (simp add: wellformed_def)
  define cs where "cs = map (\<lambda>k. int (poisson_stream ?gen k)) [0..<length (data xb)]"
  define m where "m = length (sample_cells cs)"
  from fake_data_value [OF wf _ fin, of ?gen] sh obtain gen'
    where run: "fake_data xb yb ?gen =
      Some (\<lparr>xbin = xb, ybin = yb, counts = \<lparr>shape = shape xb, data = cs\<rparr>,
           xx = \<lparr>shape = [m],
                 data = map (\<lambda>i. fadd (data xb ! (sample_cells cs ! i))
                                  (Fin (sample_stream ?gen i - 1 / 2))) [0..<m]\<rparr>,
           yy = \<lparr>shape = [m],
                 data = map (\<lambda>i. fadd (data yb ! (sample_cells cs ! i))
                                  (Fin (sample_stream ?gen (i + m) - 1 / 2))) [0..<m]\<rparr>\<rparr>,
          gen')"
    unfolding cs_def m_def by auto
  have cs: "cs \<noteq> []" "0 < cs ! 0" by (simp_all add: cs_def n)
  have c0: "sample_cells cs ! 0 = 0" by (rule sample_cells_first [OF cs])
  have "int m = sum_list cs"
    unfolding m_def by (rule length_sample_cells) (simp add: cs_def)
  moreover have "sum_list cs = 128000"
    by (simp add: cs_def n sum_list_triv)
  ultimately have m: "0 < m" by simp
  show ?thesis
    using g run c0 first m
    by (intro exI [of _ xb] exI [of _ yb]) (auto simp: binsize_def)
qed

end
